theory Spec2Isabelle
  imports Main "HOL-Library.Product_Lexorder"
begin

section \<open>The weekly scheduling engine of the Life OS agent\<close>

text \<open>
  The repository holds the scheduler twice: \<^verbatim>\<open>src/life-os-agent/src/lifeos/scheduler.py\<close>
  (called the root variant below) and \<^verbatim>\<open>src/apps/life-os-agent/src/lifeos/scheduler.py\<close>
  (the apps variant). Both are embedded. The root variant keeps the names of the source; the
  definitions of the apps variant carry the prefix \<open>apps_\<close>, since the two files use the same
  names for different functions.
\<close>

subsection \<open>Time\<close>

text \<open>
  A Python \<^verbatim>\<open>datetime\<close> has microsecond resolution. It is modelled as the number of
  microseconds since 0001-01-01 00:00:00, the first instant of day ordinal 1, which is a
  Monday. A \<^verbatim>\<open>timedelta\<close> is a number of microseconds, a \<^verbatim>\<open>date\<close> the number of days
  since 0001-01-01. All datetimes live on one time line (all naive, or all in one zone).
  The values of Python end with 9999-12-31 (\<open>date_max\<close>) at 23:59:59.999999
  (\<open>datetime_max\<close>); an addition whose result lies before 0001-01-01 or after these
  bounds raises \<^verbatim>\<open>OverflowError\<close>, and so does the construction of a \<^verbatim>\<open>timedelta\<close> of more
  than 999999999 days.
\<close>

type_synonym datetime = int
type_synonym date = int

definition us_per_minute :: int where
  "us_per_minute = 60000000"

definition us_per_hour :: int where
  "us_per_hour = 3600000000"

definition us_per_day :: int where
  "us_per_day = 86400000000"

definition minutes :: "int \<Rightarrow> int" where
  \<comment> \<open>\<^verbatim>\<open>timedelta(minutes=n)\<close>\<close>
  "minutes n = n * us_per_minute"

definition days :: "int \<Rightarrow> int" where
  \<comment> \<open>\<^verbatim>\<open>timedelta(days=n)\<close>\<close>
  "days n = n * us_per_day"

definition date_of :: "datetime \<Rightarrow> date" where
  \<comment> \<open>\<^verbatim>\<open>dt.date()\<close>\<close>
  "date_of t = t div us_per_day"

definition weekday :: "datetime \<Rightarrow> int" where
  \<comment> \<open>\<^verbatim>\<open>dt.weekday()\<close>: Monday is 0, Sunday is 6\<close>
  "weekday t = date_of t mod 7"

definition hour :: "datetime \<Rightarrow> int" where
  \<comment> \<open>\<^verbatim>\<open>dt.hour\<close>\<close>
  "hour t = (t mod us_per_day) div us_per_hour"

definition midnight :: "datetime \<Rightarrow> datetime" where
  \<comment> \<open>\<^verbatim>\<open>dt.replace(hour=0, minute=0, second=0, microsecond=0)\<close>\<close>
  "midnight t = date_of t * us_per_day"

datatype py_error = KeyError | ValueError | OverflowError

definition date_max :: date where
  \<comment> \<open>\<^verbatim>\<open>date.max\<close>, 9999-12-31\<close>
  "date_max = 3652058"

definition datetime_max :: datetime where
  \<comment> \<open>\<^verbatim>\<open>datetime.max\<close>, 9999-12-31 23:59:59.999999\<close>
  "datetime_max = 3652059 * us_per_day - 1"

definition datetime_add :: "datetime \<Rightarrow> int \<Rightarrow> py_error + datetime" where
  \<comment> \<open>\<^verbatim>\<open>dt + delta\<close>\<close>
  "datetime_add t delta =
     (if 0 \<le> t + delta \<and> t + delta \<le> datetime_max then Inr (t + delta)
      else Inl OverflowError)"

definition date_add :: "date \<Rightarrow> int \<Rightarrow> py_error + date" where
  \<comment> \<open>\<^verbatim>\<open>d + timedelta(days=n)\<close>\<close>
  "date_add d n =
     (if 0 \<le> d + n \<and> d + n \<le> date_max then Inr (d + n) else Inl OverflowError)"

definition timedelta_minutes :: "int \<Rightarrow> py_error + int" where
  \<comment> \<open>\<^verbatim>\<open>timedelta(minutes=n)\<close>: the days of the normalized value are at most 999999999 in
      absolute value\<close>
  "timedelta_minutes n =
     (if - 999999999 \<le> minutes n div us_per_day \<and> minutes n div us_per_day \<le> 999999999
      then Inr (minutes n) else Inl OverflowError)"

text \<open>
  The length of a slot in minutes is \<^verbatim>\<open>int((end - start).total_seconds() / 60)\<close>, computed
  in double precision: \<^verbatim>\<open>total_seconds\<close> is the correctly rounded quotient of the
  microseconds by \<open>10\<^sup>6\<close>, the division by 60 rounds again, and \<^verbatim>\<open>int\<close> truncates towards
  zero. A non-negative double is a pair \<open>(m, e)\<close> of integers, of value \<open>m\<close> times \<open>2\<close> to
  the power \<open>e\<close>.
  \<open>rne n d\<close> is the integer nearest to \<open>n / d\<close>, ties to even; \<open>to_double n d\<close> is the double
  nearest to \<open>n / d\<close>: the quotient is scaled by a power of two (\<open>scale_up\<close> doublings of
  \<open>n\<close>, or \<open>scale_down\<close> doublings of \<open>d\<close>) into the range of the 53-bit mantissas, from
  \<open>2 ^ 52\<close> to \<open>2 ^ 53\<close>, and rounded there. The differences of two datetimes are far from
  the subnormal numbers and from the overflow of doubles.
\<close>

definition rne :: "int \<Rightarrow> int \<Rightarrow> int" where
  "rne n d =
     (let q = n div d; r = n mod d
      in if 2 * r < d then q else if d < 2 * r then q + 1
         else if even q then q else q + 1)"

function scale_up :: "int \<Rightarrow> int \<Rightarrow> nat" where
  "scale_up n d = (if 0 < n \<and> n < 2 ^ 52 * d then Suc (scale_up (2 * n) d) else 0)"
  by pat_completeness auto
termination
  by (relation "measure (\<lambda>(n, d). nat (2 ^ 52 * d - n))") auto

function scale_down :: "int \<Rightarrow> int \<Rightarrow> nat" where
  "scale_down n d = (if 0 < d \<and> 2 ^ 53 * d \<le> n then Suc (scale_down n (2 * d)) else 0)"
  by pat_completeness auto
termination
  by (relation "measure (\<lambda>(n, d). nat (n - 2 ^ 53 * d + 1))") auto

declare scale_up.simps [simp del] scale_down.simps [simp del]

definition to_double :: "int \<Rightarrow> int \<Rightarrow> int \<times> int" where
  \<comment> \<open>the double nearest to \<open>n / d\<close>, for \<open>0 \<le> n\<close> and \<open>0 < d\<close>\<close>
  "to_double n d =
     (if n \<le> 0 then (0, 0)
      else (rne (n * 2 ^ scale_up n d) (d * 2 ^ scale_down n d),
            int (scale_down n d) - int (scale_up n d)))"

definition double_div :: "int \<times> int \<Rightarrow> int \<Rightarrow> int \<times> int" where
  \<comment> \<open>\<^verbatim>\<open>x / c\<close> for a double \<open>x\<close> and a positive integer \<open>c\<close>\<close>
  "double_div x c = to_double (fst x * 2 ^ nat (snd x)) (c * 2 ^ nat (- snd x))"

definition double_trunc :: "int \<times> int \<Rightarrow> int" where
  \<comment> \<open>\<^verbatim>\<open>int(x)\<close>\<close>
  "double_trunc x = (fst x * 2 ^ nat (snd x)) div 2 ^ nat (- snd x)"

definition whole_minutes :: "int \<Rightarrow> int" where
  \<comment> \<open>\<^verbatim>\<open>int(delta.total_seconds() / 60)\<close> for a \<^verbatim>\<open>timedelta\<close> of \<open>d\<close> microseconds; the
      operations are symmetric in the sign\<close>
  "whole_minutes d =
     (if 0 \<le> d then double_trunc (double_div (to_double d 1000000) 60)
      else - double_trunc (double_div (to_double (- d) 1000000) 60))"

subsection \<open>Root variant: slots and calendar events\<close>

record TimeSlot =
  slot_start :: datetime
  slot_end :: datetime
  is_available :: bool
  event_id :: "string option"
  event_summary :: "string option"
  is_lifeos_event :: bool
  activity_id :: "string option"

definition duration_minutes :: "TimeSlot \<Rightarrow> int" where
  "duration_minutes s = whole_minutes (slot_end s - slot_start s)"

definition overlaps :: "TimeSlot \<Rightarrow> TimeSlot \<Rightarrow> bool" where
  "overlaps s other \<longleftrightarrow> slot_start s < slot_end other \<and> slot_start other < slot_end s"

definition contains :: "TimeSlot \<Rightarrow> datetime \<Rightarrow> bool" where
  "contains s dt \<longleftrightarrow> slot_start s \<le> dt \<and> dt < slot_end s"

text \<open>
  A calendar event of the root variant is a dictionary in the format of the calendar
  service. The record holds what the scheduler reads of it: \<open>ev_start\<close> and \<open>ev_end\<close> are
  the parsed \<^verbatim>\<open>event["start"]["dateTime"]\<close> and \<^verbatim>\<open>event["end"]["dateTime"]\<close>, \<open>None\<close> when
  the key \<^verbatim>\<open>dateTime\<close> is absent (an all-day event); \<open>lifeos_generated\<close> and
  \<open>lifeos_activity_id\<close> are the entries of \<^verbatim>\<open>extendedProperties.private\<close>.
\<close>

record event =
  ev_id :: "string option"
  ev_summary :: "string option"
  ev_start :: "datetime option"
  ev_end :: "datetime option"
  lifeos_generated :: "string option"
  lifeos_activity_id :: "string option"

definition free_slot :: "datetime \<Rightarrow> datetime \<Rightarrow> TimeSlot" where
  \<comment> \<open>\<^verbatim>\<open>TimeSlot(start=s, end=e, is_available=True)\<close>\<close>
  "free_slot s e = \<lparr>slot_start = s, slot_end = e, is_available = True, event_id = None,
     event_summary = None, is_lifeos_event = False, activity_id = None\<rparr>"

definition busy_slot :: "event \<Rightarrow> datetime \<Rightarrow> datetime \<Rightarrow> TimeSlot" where
  "busy_slot e s t = \<lparr>slot_start = s, slot_end = t, is_available = False, event_id = ev_id e,
     event_summary = ev_summary e, is_lifeos_event = (lifeos_generated e = Some ''true''),
     activity_id = lifeos_activity_id e\<rparr>"

fun busy_slots :: "event list \<Rightarrow> py_error + TimeSlot list" where
  \<comment> \<open>the first loop of \<^verbatim>\<open>get_available_slots\<close>; an event with a start time and no end time
      raises \<^verbatim>\<open>KeyError\<close>\<close>
  "busy_slots [] = Inr []"
| "busy_slots (e # es) =
     (case ev_start e of
        None \<Rightarrow> busy_slots es
      | Some s \<Rightarrow>
          (case ev_end e of
             None \<Rightarrow> Inl KeyError
           | Some t \<Rightarrow>
               (case busy_slots es of
                  Inl err \<Rightarrow> Inl err
                | Inr bs \<Rightarrow> Inr (busy_slot e s t # bs))))"

definition add_gap :: "int \<Rightarrow> datetime \<Rightarrow> datetime \<Rightarrow> TimeSlot list \<Rightarrow> TimeSlot list" where
  \<comment> \<open>append the gap from \<open>s\<close> to \<open>e\<close> when it is long enough\<close>
  "add_gap min_duration s e available =
     (let gap = free_slot s e
      in if min_duration \<le> duration_minutes gap then available @ [gap] else available)"

fun find_gaps :: "int \<Rightarrow> TimeSlot list \<Rightarrow> datetime \<Rightarrow> TimeSlot list \<Rightarrow> TimeSlot list \<times> datetime" where
  \<comment> \<open>the loop \<^verbatim>\<open>for busy in busy_slots\<close>, on the cursor \<open>current\<close> and the list \<open>available\<close>\<close>
  "find_gaps min_duration [] current available = (available, current)"
| "find_gaps min_duration (busy # rest) current available =
     find_gaps min_duration rest (max current (slot_end busy))
       (if current < slot_start busy
        then add_gap min_duration current (slot_start busy) available
        else available)"

definition get_available_slots ::
  "event list \<Rightarrow> datetime \<Rightarrow> datetime \<Rightarrow> int \<Rightarrow> py_error + TimeSlot list" where
  "get_available_slots existing_events start_date end_date min_duration =
     (case busy_slots existing_events of
        Inl err \<Rightarrow> Inl err
      | Inr busy \<Rightarrow>
          (case find_gaps min_duration (sort_key slot_start busy) start_date [] of
             (available, current) \<Rightarrow>
               Inr (if current < end_date
                    then add_gap min_duration current end_date available
                    else available)))"

subsection \<open>Root variant: configuration\<close>

text \<open>
  \<^verbatim>\<open>Activity.frequency\<close> and \<^verbatim>\<open>Activity.duration\<close> are an integer or a string. The
  datatypes below hold what the accessors make of the value: an integer, or a string that
  \<^verbatim>\<open>int\<close> parses, is \<open>SInt\<close>; the strings \<^verbatim>\<open>"daily"\<close> and \<^verbatim>\<open>"weekly"\<close> are \<open>SDaily\<close> and
  \<open>SWeekly\<close>; a string with a dash is \<open>SRange\<close> of its first two parts, each \<open>None\<close> when
  \<^verbatim>\<open>int\<close> raises \<^verbatim>\<open>ValueError\<close> on it; any other string is \<open>SBad\<close>.
\<close>

datatype spec_value = SInt int | SDaily | SWeekly | SRange "int option" "int option" | SBad

datatype time_pref = PrefStr string | PrefList "string list"

record Activity =
  act_id :: string
  act_name :: string
  category :: string
  frequency :: spec_value
  duration :: spec_value
  days_preference :: "string list option"
  time_preference :: "time_pref option"

record Priorities =
  critical :: "string list"
  high :: "string list"
  medium :: "string list"
  low :: "string list"

record LifeOSConfig =
  activities :: "Activity list"
  priorities :: Priorities

definition py_int :: "int option \<Rightarrow> py_error + int" where
  "py_int p = (case p of None \<Rightarrow> Inl ValueError | Some n \<Rightarrow> Inr n)"

fun get_duration_range :: "Activity \<Rightarrow> py_error + int \<times> int" where
  \<comment> \<open>the strings \<^verbatim>\<open>"daily"\<close> and \<^verbatim>\<open>"weekly"\<close> have no dash and \<^verbatim>\<open>int\<close> raises on them\<close>
  "get_duration_range a =
     (case duration a of
        SInt n \<Rightarrow> Inr (n, n)
      | SRange lo hi \<Rightarrow>
          (case py_int lo of
             Inl err \<Rightarrow> Inl err
           | Inr l \<Rightarrow> (case py_int hi of Inl err \<Rightarrow> Inl err | Inr h \<Rightarrow> Inr (l, h)))
      | _ \<Rightarrow> Inl ValueError)"

fun get_frequency_range :: "Activity \<Rightarrow> py_error + int \<times> int" where
  "get_frequency_range a =
     (case frequency a of
        SInt n \<Rightarrow> Inr (n, n)
      | SDaily \<Rightarrow> Inr (7, 7)
      | SWeekly \<Rightarrow> Inr (1, 1)
      | SRange lo hi \<Rightarrow>
          (case py_int lo of
             Inl err \<Rightarrow> Inl err
           | Inr l \<Rightarrow> (case py_int hi of Inl err \<Rightarrow> Inl err | Inr h \<Rightarrow> Inr (l, h)))
      | SBad \<Rightarrow> Inl ValueError)"

definition get_activity_priority :: "LifeOSConfig \<Rightarrow> string \<Rightarrow> string" where
  "get_activity_priority config aid =
     (if aid \<in> set (critical (priorities config)) then ''critical''
      else if aid \<in> set (high (priorities config)) then ''high''
      else if aid \<in> set (medium (priorities config)) then ''medium''
      else if aid \<in> set (low (priorities config)) then ''low''
      else ''medium'')"

subsection \<open>Root variant: week bounds\<close>

definition get_week_bounds ::
  "datetime \<Rightarrow> datetime option \<Rightarrow> py_error + datetime \<times> datetime" where
  \<comment> \<open>\<open>now\<close> is the value of \<^verbatim>\<open>datetime.now()\<close>, read when no date is given\<close>
  "get_week_bounds now start_date =
     (let start_date = (case start_date of None \<Rightarrow> now | Some d \<Rightarrow> d);
          days_since_monday = weekday start_date
      in case datetime_add start_date (- days days_since_monday) of
           Inl err \<Rightarrow> Inl err
         | Inr week_start \<Rightarrow>
             (let week_start = midnight week_start
              in case datetime_add week_start (days 7) of
                   Inl err \<Rightarrow> Inl err
                 | Inr week_end \<Rightarrow> Inr (week_start, week_end)))"

subsection \<open>Root variant: preference filter\<close>

definition day_name :: "datetime \<Rightarrow> string" where
  \<comment> \<open>\<^verbatim>\<open>dt.strftime("%A").lower()\<close>\<close>
  "day_name t =
     [''monday'', ''tuesday'', ''wednesday'', ''thursday'', ''friday'', ''saturday'', ''sunday'']
       ! nat (weekday t)"

definition pref_list :: "time_pref \<Rightarrow> string list" where
  \<comment> \<open>\<^verbatim>\<open>[time_preference] if isinstance(time_preference, str) else time_preference\<close>\<close>
  "pref_list tp = (case tp of PrefStr s \<Rightarrow> [s] | PrefList l \<Rightarrow> l)"

definition pref_truthy :: "time_pref \<Rightarrow> bool" where
  \<comment> \<open>\<^verbatim>\<open>if time_preference:\<close> is false on \<^verbatim>\<open>None\<close>, the empty string and the empty list\<close>
  "pref_truthy tp = (case tp of PrefStr s \<Rightarrow> s \<noteq> [] | PrefList l \<Rightarrow> l \<noteq> [])"

definition pref_step :: "int \<Rightarrow> string \<Rightarrow> bool \<Rightarrow> bool" where
  \<comment> \<open>the body of \<^verbatim>\<open>for pref in prefs\<close>, on the flag \<^verbatim>\<open>matches_pref\<close>\<close>
  "pref_step h pref matches_pref =
     (if pref = ''morning'' \<and> 5 \<le> h \<and> h < 12 then True
      else if pref = ''afternoon'' \<and> 12 \<le> h \<and> h < 17 then True
      else if pref = ''evening'' \<and> 17 \<le> h \<and> h < 22 then True
      else if pref = ''flexible'' \<or> pref = ''any'' then True
      else matches_pref)"

definition day_rejected :: "string list option \<Rightarrow> TimeSlot \<Rightarrow> bool" where
  \<comment> \<open>the first \<^verbatim>\<open>continue\<close>; \<^verbatim>\<open>if day_preference:\<close> is false on \<^verbatim>\<open>None\<close> and on the empty list\<close>
  "day_rejected dpref slot =
     (case dpref of
        None \<Rightarrow> False
      | Some l \<Rightarrow> l \<noteq> [] \<and> day_name (slot_start slot) \<notin> set l)"

definition time_rejected :: "time_pref option \<Rightarrow> TimeSlot \<Rightarrow> bool" where
  \<comment> \<open>the second \<^verbatim>\<open>continue\<close>\<close>
  "time_rejected tpref slot =
     (case tpref of
        None \<Rightarrow> False
      | Some tp \<Rightarrow>
          pref_truthy tp \<and> \<not> fold (pref_step (hour (slot_start slot))) (pref_list tp) False)"

definition slot_kept :: "time_pref option \<Rightarrow> string list option \<Rightarrow> TimeSlot \<Rightarrow> bool" where
  \<comment> \<open>the body of \<^verbatim>\<open>for slot in slots\<close>: true when the slot reaches \<^verbatim>\<open>filtered.append(slot)\<close>\<close>
  "slot_kept tpref dpref slot =
     (if day_rejected dpref slot then False
      else if time_rejected tpref slot then False
      else True)"

definition filter_slots_by_preference ::
  "TimeSlot list \<Rightarrow> time_pref option \<Rightarrow> string list option \<Rightarrow> TimeSlot list" where
  "filter_slots_by_preference slots tpref dpref =
     (if tpref = None \<and> dpref = None then slots
      else filter (slot_kept tpref dpref) slots)"

subsection \<open>Root variant: requirements and coverage\<close>

text \<open>
  A Python dictionary keeps its keys in the order of their first insertion; assigning to a
  key that is present replaces the value in place. Dictionaries that are iterated are
  association lists with \<open>dict_set\<close> as assignment.
\<close>

fun dict_set :: "'k \<Rightarrow> 'v \<Rightarrow> ('k \<times> 'v) list \<Rightarrow> ('k \<times> 'v) list" where
  "dict_set k v [] = [(k, v)]"
| "dict_set k v (kv # d) = (if fst kv = k then (k, v) # d else kv # dict_set k v d)"

record requirement =
  req_activity :: Activity
  min_sessions :: int
  max_sessions :: int
  min_duration :: int
  max_duration :: int
  total_min_minutes :: int
  total_max_minutes :: int
  req_priority :: string

definition requirement_of :: "LifeOSConfig \<Rightarrow> Activity \<Rightarrow> py_error + requirement" where
  "requirement_of config a =
     (case get_frequency_range a of
        Inl err \<Rightarrow> Inl err
      | Inr (min_freq, max_freq) \<Rightarrow>
          (case get_duration_range a of
             Inl err \<Rightarrow> Inl err
           | Inr (min_dur, max_dur) \<Rightarrow>
               Inr \<lparr>req_activity = a, min_sessions = min_freq, max_sessions = max_freq,
                    min_duration = min_dur, max_duration = max_dur,
                    total_min_minutes = min_freq * min_dur,
                    total_max_minutes = max_freq * max_dur,
                    req_priority = get_activity_priority config (act_id a)\<rparr>))"

fun requirements_loop ::
  "LifeOSConfig \<Rightarrow> Activity list \<Rightarrow> (string \<times> requirement) list \<Rightarrow>
     py_error + (string \<times> requirement) list" where
  "requirements_loop config [] requirements = Inr requirements"
| "requirements_loop config (a # rest) requirements =
     (case requirement_of config a of
        Inl err \<Rightarrow> Inl err
      | Inr r \<Rightarrow> requirements_loop config rest (dict_set (act_id a) r requirements))"

definition calculate_weekly_requirements ::
  "LifeOSConfig \<Rightarrow> py_error + (string \<times> requirement) list" where
  "calculate_weekly_requirements config = requirements_loop config (activities config) []"

record analysis_entry =
  an_activity :: Activity
  required_sessions :: "int \<times> int"
  required_minutes :: "int \<times> int"
  scheduled_sessions :: int
  scheduled_minutes :: int
  sessions_deficit :: int
  sessions_surplus :: int
  minutes_deficit :: int
  an_priority :: string

fun tally :: "string \<Rightarrow> event list \<Rightarrow> int \<times> int \<Rightarrow> py_error + int \<times> int" where
  \<comment> \<open>the loop \<^verbatim>\<open>for event in existing_events\<close> on \<^verbatim>\<open>(scheduled_sessions, scheduled_minutes)\<close>;
      \<^verbatim>\<open>event["start"]["dateTime"]\<close> raises \<^verbatim>\<open>KeyError\<close> on a tagged event without times\<close>
  "tally aid [] counts = Inr counts"
| "tally aid (e # es) counts =
     (if lifeos_activity_id e = Some aid
      then (case ev_start e of
              None \<Rightarrow> Inl KeyError
            | Some s \<Rightarrow>
                (case ev_end e of
                   None \<Rightarrow> Inl KeyError
                 | Some t \<Rightarrow> tally aid es (fst counts + 1, snd counts + whole_minutes (t - s))))
      else tally aid es counts)"

definition analysis_of :: "requirement \<Rightarrow> int \<times> int \<Rightarrow> analysis_entry" where
  "analysis_of req counts =
     \<lparr>an_activity = req_activity req,
      required_sessions = (min_sessions req, max_sessions req),
      required_minutes = (total_min_minutes req, total_max_minutes req),
      scheduled_sessions = fst counts,
      scheduled_minutes = snd counts,
      sessions_deficit = max 0 (min_sessions req - fst counts),
      sessions_surplus = max 0 (fst counts - max_sessions req),
      minutes_deficit = max 0 (total_min_minutes req - snd counts),
      an_priority = req_priority req\<rparr>"

fun analysis_loop ::
  "event list \<Rightarrow> (string \<times> requirement) list \<Rightarrow> (string \<times> analysis_entry) list \<Rightarrow>
     py_error + (string \<times> analysis_entry) list" where
  "analysis_loop existing_events [] analysis = Inr analysis"
| "analysis_loop existing_events (kv # rest) analysis =
     (case tally (fst kv) existing_events (0, 0) of
        Inl err \<Rightarrow> Inl err
      | Inr counts \<Rightarrow>
          analysis_loop existing_events rest
            (dict_set (fst kv) (analysis_of (snd kv) counts) analysis))"

definition analyze_scheduled_vs_required ::
  "LifeOSConfig \<Rightarrow> event list \<Rightarrow> datetime \<Rightarrow> datetime \<Rightarrow>
     py_error + (string \<times> analysis_entry) list" where
  \<comment> \<open>the source does not read \<^verbatim>\<open>week_start\<close> and \<^verbatim>\<open>week_end\<close>\<close>
  "analyze_scheduled_vs_required config existing_events week_start week_end =
     (case calculate_weekly_requirements config of
        Inl err \<Rightarrow> Inl err
      | Inr requirements \<Rightarrow> analysis_loop existing_events requirements [])"

subsection \<open>Root variant: proposal generator\<close>

record ScheduleProposal =
  p_activity :: Activity
  p_start :: datetime
  p_end :: datetime
  p_priority :: string

definition priority_order :: "string \<Rightarrow> int" where
  \<comment> \<open>\<^verbatim>\<open>priority_order.get(p, 2)\<close>\<close>
  "priority_order p =
     (if p = ''critical'' then 0 else if p = ''high'' then 1
      else if p = ''medium'' then 2 else if p = ''low'' then 3 else 2)"

definition schedule_key :: "string \<times> analysis_entry \<Rightarrow> int \<times> int" where
  "schedule_key x = (priority_order (an_priority (snd x)), - sessions_deficit (snd x))"

definition activities_to_schedule ::
  "(string \<times> analysis_entry) list \<Rightarrow> (string \<times> analysis_entry) list" where
  \<comment> \<open>\<^verbatim>\<open>sorted\<close> is stable, and tuples compare lexicographically\<close>
  "activities_to_schedule analysis =
     sort_key schedule_key (filter (\<lambda>x. 0 < sessions_deficit (snd x)) analysis)"

text \<open>
  \<^verbatim>\<open>preferred_slots\<close> holds the very objects of \<^verbatim>\<open>available\<close>, in the same order, so the
  assignment \<^verbatim>\<open>slot.start = end_time\<close> shrinks the slot in \<^verbatim>\<open>available\<close> too. The model
  therefore walks positions of \<open>available\<close> and writes the shrunk slot back there.
\<close>

definition preferred_indices ::
  "TimeSlot list \<Rightarrow> time_pref option \<Rightarrow> string list option \<Rightarrow> nat list" where
  "preferred_indices available tpref dpref =
     (if tpref = None \<and> dpref = None then [0..<length available]
      else filter (\<lambda>i. slot_kept tpref dpref (available ! i)) [0..<length available])"

fun book_sessions ::
  "Activity \<Rightarrow> string \<Rightarrow> int \<Rightarrow> nat list \<Rightarrow> TimeSlot list \<times> int \<times> ScheduleProposal list \<Rightarrow>
     py_error + TimeSlot list \<times> int \<times> ScheduleProposal list" where
  \<comment> \<open>the loop \<^verbatim>\<open>for slot in preferred_slots\<close> on \<^verbatim>\<open>(available, needed_sessions, proposals)\<close>\<close>
  "book_sessions activity prio min_dur [] state = Inr state"
| "book_sessions activity prio min_dur (i # rest) (available, needed_sessions, proposals) =
     (if needed_sessions \<le> 0 then Inr (available, needed_sessions, proposals)
      else
        (let slot = available ! i
         in if min_dur \<le> duration_minutes slot
            then
              (let booked_minutes = min min_dur (duration_minutes slot)
               in case timedelta_minutes booked_minutes of
                    Inl err \<Rightarrow> Inl err
                  | Inr delta \<Rightarrow>
                      (case datetime_add (slot_start slot) delta of
                         Inl err \<Rightarrow> Inl err
                       | Inr end_time \<Rightarrow>
                           (let proposal = \<lparr>p_activity = activity, p_start = slot_start slot,
                                             p_end = end_time, p_priority = prio\<rparr>
                            in book_sessions activity prio min_dur rest
                                 (available[i := slot\<lparr>slot_start := end_time\<rparr>],
                                  needed_sessions - 1, proposals @ [proposal]))))
            else book_sessions activity prio min_dur rest
                   (available, needed_sessions, proposals)))"

definition preferred_slots :: "TimeSlot list \<Rightarrow> Activity \<Rightarrow> nat list" where
  \<comment> \<open>the positions that \<^verbatim>\<open>for slot in preferred_slots\<close> walks: those the filter keeps, or,
      when it keeps none, all of \<^verbatim>\<open>available\<close>\<close>
  "preferred_slots available activity =
     (let preferred = preferred_indices available (time_preference activity)
                        (days_preference activity)
      in if preferred = [] then [0..<length available] else preferred)"

definition schedule_activity ::
  "string \<times> analysis_entry \<Rightarrow> TimeSlot list \<times> ScheduleProposal list \<Rightarrow>
     py_error + TimeSlot list \<times> ScheduleProposal list" where
  \<comment> \<open>the body of \<^verbatim>\<open>for activity_id, data in activities_to_schedule\<close>\<close>
  "schedule_activity x state =
     (let activity = an_activity (snd x);
          needed_sessions = sessions_deficit (snd x)
      in case get_duration_range activity of
           Inl err \<Rightarrow> Inl err
         | Inr (min_dur, max_dur) \<Rightarrow>
             (case book_sessions activity (an_priority (snd x)) min_dur
                     (preferred_slots (fst state) activity)
                     (fst state, needed_sessions, snd state) of
                Inl err \<Rightarrow> Inl err
              | Inr (available', needed', proposals') \<Rightarrow> Inr (available', proposals')))"

fun schedule_all ::
  "(string \<times> analysis_entry) list \<Rightarrow> TimeSlot list \<times> ScheduleProposal list \<Rightarrow>
     py_error + TimeSlot list \<times> ScheduleProposal list" where
  "schedule_all [] state = Inr state"
| "schedule_all (x # rest) state =
     (case schedule_activity x state of
        Inl err \<Rightarrow> Inl err
      | Inr state' \<Rightarrow> schedule_all rest state')"

definition propose_schedule ::
  "datetime \<Rightarrow> LifeOSConfig \<Rightarrow> event list \<Rightarrow> datetime option \<Rightarrow>
     py_error + ScheduleProposal list" where
  \<comment> \<open>\<open>now\<close> is the clock read by \<^verbatim>\<open>get_week_bounds()\<close> when \<^verbatim>\<open>week_start\<close> is \<^verbatim>\<open>None\<close>;
      the default \<^verbatim>\<open>min_duration\<close> of \<^verbatim>\<open>get_available_slots\<close> is 15\<close>
  "propose_schedule now config existing_events week_start =
     (case (case week_start of
              None \<Rightarrow> get_week_bounds now None
            | Some ws \<Rightarrow>
                (case datetime_add ws (days 7) of
                   Inl err \<Rightarrow> Inl err
                 | Inr week_end \<Rightarrow> Inr (ws, week_end))) of
        Inl err \<Rightarrow> Inl err
      | Inr (week_start, week_end) \<Rightarrow>
          (case analyze_scheduled_vs_required config existing_events week_start week_end of
             Inl err \<Rightarrow> Inl err
           | Inr analysis \<Rightarrow>
               (case get_available_slots existing_events week_start week_end 15 of
                  Inl err \<Rightarrow> Inl err
                | Inr available \<Rightarrow>
                    (case schedule_all (activities_to_schedule analysis) (available, []) of
                       Inl err \<Rightarrow> Inl err
                     | Inr state \<Rightarrow> Inr (snd state)))))"

text \<open>
  A proposal becomes a calendar event through \<^verbatim>\<open>ScheduleProposal.to_event_body\<close> and
  \<^verbatim>\<open>CalendarClient.create_event\<close>: the event carries the proposal's start and end as
  \<^verbatim>\<open>dateTime\<close> and the private properties \<^verbatim>\<open>lifeos_activity_id\<close> (the id of the activity)
  and \<^verbatim>\<open>lifeos_generated = "true"\<close>. The id is given by the calendar service and the title is
  built from the event format of the configuration; the scheduler reads neither.
\<close>

definition booked_event :: "string option \<Rightarrow> string option \<Rightarrow> ScheduleProposal \<Rightarrow> event" where
  "booked_event ident title p =
     \<lparr>ev_id = ident, ev_summary = title,
      ev_start = Some (p_start p), ev_end = Some (p_end p),
      lifeos_generated = Some ''true'',
      lifeos_activity_id = Some (act_id (p_activity p))\<rparr>"

subsection \<open>Apps variant: configuration\<close>

datatype DayOfWeek = MONDAY | TUESDAY | WEDNESDAY | THURSDAY | FRIDAY | SATURDAY | SUNDAY

datatype TimePreference = MORNING | AFTERNOON | EVENING | FLEXIBLE

datatype Priority = CRITICAL | HIGH | MEDIUM | LOW

text \<open>
  A \<^verbatim>\<open>datetime.time\<close> is the number of microseconds since midnight. The properties
  \<^verbatim>\<open>start_time\<close> and \<^verbatim>\<open>end_time\<close> of the work template and of a commitment parse a string
  \<^verbatim>\<open>HH:MM\<close>; the records hold the parsed times.
\<close>

type_synonym time = int

definition time_of :: "int \<Rightarrow> int \<Rightarrow> time" where
  \<comment> \<open>\<^verbatim>\<open>time(h, m)\<close>\<close>
  "time_of h m = h * us_per_hour + m * us_per_minute"

definition combine :: "date \<Rightarrow> time \<Rightarrow> datetime" where
  \<comment> \<open>\<^verbatim>\<open>datetime.combine(d, t)\<close>\<close>
  "combine d t = d * us_per_day + t"

definition time_part :: "datetime \<Rightarrow> time" where
  \<comment> \<open>\<^verbatim>\<open>dt.time()\<close>\<close>
  "time_part t = t mod us_per_day"

definition day_of_week :: "date \<Rightarrow> DayOfWeek" where
  \<comment> \<open>\<^verbatim>\<open>DayOfWeek(d.strftime("%A").lower())\<close>\<close>
  "day_of_week d =
     [MONDAY, TUESDAY, WEDNESDAY, THURSDAY, FRIDAY, SATURDAY, SUNDAY] ! nat (d mod 7)"

record apps_WorkTemplate =
  work_days :: "DayOfWeek list"
  work_start_time :: time
  work_end_time :: time

record apps_Commitment =
  com_name :: string
  com_day :: DayOfWeek
  com_start_time :: time
  com_end_time :: time

record apps_Activity =
  a_id :: string
  a_name :: string
  a_frequency :: spec_value
  a_duration :: spec_value
  a_time_preference :: TimePreference
  a_days_preference :: "DayOfWeek list option"

text \<open>
  \<open>apps_work\<close> is \<^verbatim>\<open>config.template.work\<close>, \<open>None\<close> when the template or its work part is
  absent, the two cases that \<^verbatim>\<open>if self.config.template and self.config.template.work\<close>
  rejects.
\<close>

record apps_LifeOSConfig =
  apps_work :: "apps_WorkTemplate option"
  apps_commitments :: "apps_Commitment list"
  apps_activities :: "apps_Activity list"
  apps_priorities :: Priorities

definition apps_min_duration :: "apps_Activity \<Rightarrow> py_error + int" where
  "apps_min_duration a =
     (case a_duration a of
        SInt n \<Rightarrow> Inr n
      | SRange lo hi \<Rightarrow> py_int lo
      | _ \<Rightarrow> Inl ValueError)"

definition apps_max_duration :: "apps_Activity \<Rightarrow> py_error + int" where
  "apps_max_duration a =
     (case a_duration a of
        SInt n \<Rightarrow> Inr n
      | SRange lo hi \<Rightarrow> py_int hi
      | _ \<Rightarrow> Inl ValueError)"

definition apps_weekly_target :: "apps_Activity \<Rightarrow> py_error + int" where
  "apps_weekly_target a =
     (case a_frequency a of
        SDaily \<Rightarrow> Inr 7
      | SWeekly \<Rightarrow> Inr 1
      | SInt n \<Rightarrow> Inr n
      | SRange lo hi \<Rightarrow> py_int lo
      | SBad \<Rightarrow> Inl ValueError)"

definition apps_get_priority :: "Priorities \<Rightarrow> string \<Rightarrow> Priority" where
  "apps_get_priority ps aid =
     (if aid \<in> set (critical ps) then CRITICAL
      else if aid \<in> set (high ps) then HIGH
      else if aid \<in> set (medium ps) then MEDIUM
      else if aid \<in> set (low ps) then LOW
      else MEDIUM)"

subsection \<open>Apps variant: slots and events\<close>

record apps_TimeSlot =
  a_start :: datetime
  a_end :: datetime
  a_day :: "DayOfWeek option"

definition apps_duration_minutes :: "apps_TimeSlot \<Rightarrow> int" where
  "apps_duration_minutes s = whole_minutes (a_end s - a_start s)"

definition apps_overlaps :: "apps_TimeSlot \<Rightarrow> apps_TimeSlot \<Rightarrow> bool" where
  "apps_overlaps s other \<longleftrightarrow> a_start s < a_end other \<and> a_start other < a_end s"

definition apps_contains :: "apps_TimeSlot \<Rightarrow> datetime \<Rightarrow> bool" where
  "apps_contains s dt \<longleftrightarrow> a_start s \<le> dt \<and> dt < a_end s"

text \<open>
  The id of a synthesized block is an f-string over the date; it is kept in structured
  form: \<open>WorkId d\<close> is \<^verbatim>\<open>f"work_{d}"\<close> and \<open>CommitmentId n d\<close> is \<^verbatim>\<open>f"commitment_{n}_{d}"\<close>.
\<close>

datatype event_ident = Ident string | WorkId date | CommitmentId string date

record ScheduledEvent =
  se_id :: event_ident
  se_title :: string
  se_start :: datetime
  se_end :: datetime
  se_activity_id :: "string option"
  se_location :: "string option"
  se_description :: "string option"

definition time_slot :: "ScheduledEvent \<Rightarrow> apps_TimeSlot" where
  \<comment> \<open>the property \<^verbatim>\<open>ScheduledEvent.time_slot\<close>\<close>
  "time_slot ev = \<lparr>a_start = se_start ev, a_end = se_end ev, a_day = None\<rparr>"

subsection \<open>Apps variant: availability\<close>

definition work_block :: "apps_LifeOSConfig \<Rightarrow> date \<Rightarrow> DayOfWeek \<Rightarrow> ScheduledEvent list" where
  \<comment> \<open>what \<^verbatim>\<open>existing_events.append\<close> adds for the work hours of the day\<close>
  "work_block config current_date day =
     (case apps_work config of
        None \<Rightarrow> []
      | Some w \<Rightarrow>
          if day \<in> set (work_days w)
          then [\<lparr>se_id = WorkId current_date, se_title = ''Work'',
                  se_start = combine current_date (work_start_time w),
                  se_end = combine current_date (work_end_time w),
                  se_activity_id = None, se_location = None, se_description = None\<rparr>]
          else [])"

definition commitment_blocks ::
  "apps_LifeOSConfig \<Rightarrow> date \<Rightarrow> DayOfWeek \<Rightarrow> ScheduledEvent list" where
  \<comment> \<open>what \<^verbatim>\<open>existing_events.append\<close> adds for the commitments of the day\<close>
  "commitment_blocks config current_date day =
     map (\<lambda>c. \<lparr>se_id = CommitmentId (com_name c) current_date, se_title = com_name c,
                se_start = combine current_date (com_start_time c),
                se_end = combine current_date (com_end_time c),
                se_activity_id = None, se_location = None, se_description = None\<rparr>)
       (filter (\<lambda>c. com_day c = day) (apps_commitments config))"

definition apps_add_gap ::
  "int \<Rightarrow> DayOfWeek \<Rightarrow> datetime \<Rightarrow> datetime \<Rightarrow> apps_TimeSlot list \<Rightarrow> apps_TimeSlot list" where
  "apps_add_gap slot_duration day s e available =
     (let gap = \<lparr>a_start = s, a_end = e, a_day = Some day\<rparr>
      in if slot_duration \<le> apps_duration_minutes gap then available @ [gap] else available)"

fun apps_find_gaps ::
  "int \<Rightarrow> DayOfWeek \<Rightarrow> ScheduledEvent list \<Rightarrow> datetime \<Rightarrow> apps_TimeSlot list \<Rightarrow>
     apps_TimeSlot list \<times> datetime" where
  \<comment> \<open>the loop \<^verbatim>\<open>for event in day_events\<close> on \<^verbatim>\<open>current_time\<close> and \<^verbatim>\<open>available\<close>\<close>
  "apps_find_gaps slot_duration day [] current_time available = (available, current_time)"
| "apps_find_gaps slot_duration day (ev # rest) current_time available =
     apps_find_gaps slot_duration day rest (max current_time (se_end ev))
       (if current_time < se_start ev
        then apps_add_gap slot_duration day current_time (se_start ev) available
        else available)"

definition apps_day_step ::
  "apps_LifeOSConfig \<Rightarrow> date \<Rightarrow> int \<Rightarrow> nat \<Rightarrow> ScheduledEvent list \<times> apps_TimeSlot list \<Rightarrow>
     py_error + ScheduledEvent list \<times> apps_TimeSlot list" where
  \<comment> \<open>the body of \<^verbatim>\<open>for day_offset in range(7)\<close> on the caller's list \<^verbatim>\<open>existing_events\<close>,
      which the body appends to, and on \<^verbatim>\<open>available\<close>\<close>
  "apps_day_step config week_start slot_duration day_offset state =
     (case date_add week_start (int day_offset) of
        Inl err \<Rightarrow> Inl err
      | Inr current_date \<Rightarrow>
          (let day = day_of_week current_date;
               day_start = combine current_date (time_of 6 0);
               day_end = combine current_date (time_of 22 0);
               existing_events = fst state @ work_block config current_date day
                                   @ commitment_blocks config current_date day;
               day_events = sort_key se_start
                              (filter (\<lambda>e. date_of (se_start e) = current_date) existing_events)
           in case apps_find_gaps slot_duration day day_events day_start (snd state) of
                (available, current_time) \<Rightarrow>
                  Inr (existing_events,
                       if current_time < day_end
                       then apps_add_gap slot_duration day current_time day_end available
                       else available)))"

fun apps_days_loop ::
  "apps_LifeOSConfig \<Rightarrow> date \<Rightarrow> int \<Rightarrow> nat list \<Rightarrow> ScheduledEvent list \<times> apps_TimeSlot list \<Rightarrow>
     py_error + ScheduledEvent list \<times> apps_TimeSlot list" where
  \<comment> \<open>the loop \<^verbatim>\<open>for day_offset in range(7)\<close>\<close>
  "apps_days_loop config week_start slot_duration [] state = Inr state"
| "apps_days_loop config week_start slot_duration (day_offset # rest) state =
     (case apps_day_step config week_start slot_duration day_offset state of
        Inl err \<Rightarrow> Inl err
      | Inr state' \<Rightarrow> apps_days_loop config week_start slot_duration rest state')"

definition apps_get_available_slots ::
  "apps_LifeOSConfig \<Rightarrow> date \<Rightarrow> ScheduledEvent list \<Rightarrow> int \<Rightarrow>
     py_error + apps_TimeSlot list \<times> ScheduledEvent list" where
  \<comment> \<open>returns the slots and the caller's list as the call leaves it\<close>
  "apps_get_available_slots config week_start existing_events slot_duration =
     (case apps_days_loop config week_start slot_duration [0..<7] (existing_events, []) of
        Inl err \<Rightarrow> Inl err
      | Inr (existing_events', available) \<Rightarrow> Inr (available, existing_events'))"

subsection \<open>Apps variant: week bounds and preference filter\<close>

definition apps_get_week_bounds :: "date \<Rightarrow> date option \<Rightarrow> py_error + date \<times> date" where
  \<comment> \<open>\<open>today\<close> is the value of \<^verbatim>\<open>date.today()\<close>, read when no date is given\<close>
  "apps_get_week_bounds today reference_date =
     (let reference_date = (case reference_date of None \<Rightarrow> today | Some d \<Rightarrow> d);
          days_since_monday = reference_date mod 7
      in case date_add reference_date (- days_since_monday) of
           Inl err \<Rightarrow> Inl err
         | Inr monday \<Rightarrow>
             (case date_add monday 6 of
                Inl err \<Rightarrow> Inl err
              | Inr sunday \<Rightarrow> Inr (monday, sunday)))"

definition TIME_RANGES :: "TimePreference \<Rightarrow> time \<times> time" where
  "TIME_RANGES p =
     (case p of
        MORNING \<Rightarrow> (time_of 6 0, time_of 12 0)
      | AFTERNOON \<Rightarrow> (time_of 12 0, time_of 17 0)
      | EVENING \<Rightarrow> (time_of 17 0, time_of 22 0)
      | FLEXIBLE \<Rightarrow> (time_of 6 0, time_of 22 0))"

definition apps_day_rejected :: "DayOfWeek list option \<Rightarrow> apps_TimeSlot \<Rightarrow> bool" where
  \<comment> \<open>the \<^verbatim>\<open>continue\<close> of the day check; a slot without a day is in no list\<close>
  "apps_day_rejected dpref slot =
     (case dpref of
        None \<Rightarrow> False
      | Some l \<Rightarrow> l \<noteq> [] \<and> (case a_day slot of None \<Rightarrow> True | Some d \<Rightarrow> d \<notin> set l))"

definition apps_filter_step ::
  "apps_Activity \<Rightarrow> apps_TimeSlot \<Rightarrow> apps_TimeSlot list \<times> apps_TimeSlot list \<Rightarrow>
     apps_TimeSlot list \<times> apps_TimeSlot list" where
  \<comment> \<open>the body of \<^verbatim>\<open>for slot in slots\<close> on \<^verbatim>\<open>(preferred, other)\<close>\<close>
  "apps_filter_step activity slot state =
     (case TIME_RANGES (a_time_preference activity) of
        (pref_start, pref_end) \<Rightarrow>
          (let slot_time = time_part (a_start slot)
           in if apps_day_rejected (a_days_preference activity) slot then state
              else if pref_start \<le> slot_time \<and> slot_time < pref_end
              then (fst state @ [slot], snd state)
              else if a_time_preference activity = FLEXIBLE
              then (fst state @ [slot], snd state)
              else (fst state, snd state @ [slot])))"

definition apps_filter_slots_by_preference ::
  "apps_TimeSlot list \<Rightarrow> apps_Activity \<Rightarrow> apps_TimeSlot list" where
  "apps_filter_slots_by_preference slots activity =
     (case fold (apps_filter_step activity) slots ([], []) of
        (preferred, other) \<Rightarrow> preferred @ other)"

subsection \<open>Apps variant: requirements and coverage\<close>

record apps_requirement =
  ar_activity :: apps_Activity
  target_sessions :: int
  min_minutes :: int
  max_minutes :: int
  ar_priority :: Priority

definition apps_requirement_of ::
  "apps_LifeOSConfig \<Rightarrow> apps_Activity \<Rightarrow> py_error + apps_requirement" where
  "apps_requirement_of config a =
     (case apps_weekly_target a of
        Inl err \<Rightarrow> Inl err
      | Inr target \<Rightarrow>
          (case apps_min_duration a of
             Inl err \<Rightarrow> Inl err
           | Inr lo \<Rightarrow>
               (case apps_max_duration a of
                  Inl err \<Rightarrow> Inl err
                | Inr hi \<Rightarrow>
                    Inr \<lparr>ar_activity = a, target_sessions = target,
                         min_minutes = target * lo, max_minutes = target * hi,
                         ar_priority = apps_get_priority (apps_priorities config) (a_id a)\<rparr>)))"

fun apps_requirements_loop ::
  "apps_LifeOSConfig \<Rightarrow> apps_Activity list \<Rightarrow> (string \<times> apps_requirement) list \<Rightarrow>
     py_error + (string \<times> apps_requirement) list" where
  "apps_requirements_loop config [] requirements = Inr requirements"
| "apps_requirements_loop config (a # rest) requirements =
     (case apps_requirement_of config a of
        Inl err \<Rightarrow> Inl err
      | Inr r \<Rightarrow> apps_requirements_loop config rest (dict_set (a_id a) r requirements))"

definition apps_calculate_weekly_requirements ::
  "apps_LifeOSConfig \<Rightarrow> py_error + (string \<times> apps_requirement) list" where
  "apps_calculate_weekly_requirements config =
     apps_requirements_loop config (apps_activities config) []"

text \<open>
  \<^verbatim>\<open>str.lower\<close> folds every cased character of Unicode; its table is part of the Python
  runtime, not of the repository. The functions that call it take it as the parameter
  \<open>lower\<close>, a function on strings (in the encoding of the model, one \<open>char\<close> per byte).
\<close>

fun starts_with :: "'a list \<Rightarrow> 'a list \<Rightarrow> bool" where
  "starts_with [] ys = True"
| "starts_with (x # xs) [] = False"
| "starts_with (x # xs) (y # ys) = (x = y \<and> starts_with xs ys)"

fun py_in :: "'a list \<Rightarrow> 'a list \<Rightarrow> bool" where
  \<comment> \<open>\<^verbatim>\<open>xs in ys\<close> on strings: \<open>xs\<close> occurs in \<open>ys\<close>\<close>
  "py_in xs [] = (xs = [])"
| "py_in xs (y # ys) = (starts_with xs (y # ys) \<or> py_in xs ys)"

definition str_truthy :: "string option \<Rightarrow> bool" where
  \<comment> \<open>\<^verbatim>\<open>if activity_id:\<close> is false on \<^verbatim>\<open>None\<close> and on the empty string\<close>
  "str_truthy s = (case s of None \<Rightarrow> False | Some x \<Rightarrow> x \<noteq> [])"

definition matched_activity_id ::
  "(string \<Rightarrow> string) \<Rightarrow> apps_LifeOSConfig \<Rightarrow> ScheduledEvent \<Rightarrow> string option" where
  \<comment> \<open>the tag of the event, or the id of the first activity whose name occurs in the title\<close>
  "matched_activity_id lower config ev =
     (if str_truthy (se_activity_id ev) then se_activity_id ev
      else (case find (\<lambda>a. py_in (lower (a_name a)) (lower (se_title ev)))
                   (apps_activities config) of
              None \<Rightarrow> se_activity_id ev
            | Some a \<Rightarrow> Some (a_id a)))"

definition apps_count_step ::
  "(string \<Rightarrow> string) \<Rightarrow> apps_LifeOSConfig \<Rightarrow> date \<Rightarrow> date \<Rightarrow> ScheduledEvent \<Rightarrow>
     (string \<Rightarrow> int) \<times> (string \<Rightarrow> int) \<Rightarrow> (string \<Rightarrow> int) \<times> (string \<Rightarrow> int)" where
  \<comment> \<open>the body of \<^verbatim>\<open>for event in scheduled_events\<close>; the two dictionaries are read only
      through \<^verbatim>\<open>get(key, 0)\<close> and are functions with the value 0 on absent keys\<close>
  "apps_count_step lower config week_start week_end ev state =
     (if date_of (se_start ev) < week_start \<or> week_end < date_of (se_start ev) then state
      else
        (let activity_id = matched_activity_id lower config ev
         in if str_truthy activity_id
            then (case activity_id of
                    None \<Rightarrow> state
                  | Some k \<Rightarrow>
                      ((fst state)(k := fst state k + 1),
                       (snd state)(k := snd state k
                          + whole_minutes (se_end ev - se_start ev))))
            else state))"

record apps_analysis_entry =
  activity_name :: string
  an_target_sessions :: int
  an_scheduled_sessions :: int
  gap_sessions :: int
  target_minutes :: int
  an_scheduled_minutes :: int
  apps_an_priority :: Priority
  on_track :: bool

definition apps_analysis_of :: "apps_requirement \<Rightarrow> int \<Rightarrow> int \<Rightarrow> apps_analysis_entry" where
  "apps_analysis_of req scheduled mins =
     \<lparr>activity_name = a_name (ar_activity req),
      an_target_sessions = target_sessions req,
      an_scheduled_sessions = scheduled,
      gap_sessions = max 0 (target_sessions req - scheduled),
      target_minutes = min_minutes req,
      an_scheduled_minutes = mins,
      apps_an_priority = ar_priority req,
      on_track = (target_sessions req \<le> scheduled)\<rparr>"

definition apps_analyze_scheduled_vs_required ::
  "(string \<Rightarrow> string) \<Rightarrow> apps_LifeOSConfig \<Rightarrow> ScheduledEvent list \<Rightarrow> date \<Rightarrow>
     py_error + (string \<times> apps_analysis_entry) list" where
  "apps_analyze_scheduled_vs_required lower config scheduled_events week_start =
     (case apps_calculate_weekly_requirements config of
        Inl err \<Rightarrow> Inl err
      | Inr requirements \<Rightarrow>
          (case date_add week_start 6 of
             Inl err \<Rightarrow> Inl err
           | Inr week_end \<Rightarrow>
               (case fold (apps_count_step lower config week_start week_end) scheduled_events
                       (\<lambda>k. 0, \<lambda>k. 0) of
                  (scheduled_counts, scheduled_mins) \<Rightarrow>
                    Inr (fold (\<lambda>kv analysis.
                                 dict_set (fst kv)
                                   (apps_analysis_of (snd kv) (scheduled_counts (fst kv))
                                      (scheduled_mins (fst kv))) analysis)
                           requirements []))))"

subsection \<open>Apps variant: proposal generator\<close>

record ProposedEvent =
  pe_activity :: apps_Activity
  pe_slot :: apps_TimeSlot
  pe_priority :: Priority

record coverage_entry =
  cov_scheduled :: int
  cov_target :: int
  covered :: bool

record apps_ScheduleProposal =
  sp_week_start :: date
  proposed_events :: "ProposedEvent list"
  conflicts :: "string list"
  coverage :: "(string \<times> coverage_entry) list"

fun split_slot :: "apps_TimeSlot list \<Rightarrow> apps_TimeSlot \<Rightarrow> apps_TimeSlot \<Rightarrow> apps_TimeSlot list" where
  \<comment> \<open>\<^verbatim>\<open>_split_slot\<close>\<close>
  "split_slot [] original used = []"
| "split_slot (slot # slots) original used =
     (if a_start slot = a_start original \<and> a_end slot = a_end original
      then (if a_start slot < a_start used
            then [\<lparr>a_start = a_start slot, a_end = a_start used, a_day = a_day slot\<rparr>]
            else [])
           @ (if a_end used < a_end slot
              then [\<lparr>a_start = a_end used, a_end = a_end slot, a_day = a_day slot\<rparr>]
              else [])
      else [slot])
     @ split_slot slots original used"

definition priority_index :: "Priority \<Rightarrow> nat" where
  \<comment> \<open>\<^verbatim>\<open>priority_order.index(p)\<close>\<close>
  "priority_index p = (case p of CRITICAL \<Rightarrow> 0 | HIGH \<Rightarrow> 1 | MEDIUM \<Rightarrow> 2 | LOW \<Rightarrow> 3)"

fun apps_book_sessions ::
  "apps_Activity \<Rightarrow> Priority \<Rightarrow> apps_TimeSlot list \<Rightarrow>
     apps_TimeSlot list \<times> (string \<Rightarrow> int) \<times> int \<times> ProposedEvent list \<Rightarrow>
     py_error + apps_TimeSlot list \<times> (string \<Rightarrow> int) \<times> int \<times> ProposedEvent list" where
  \<comment> \<open>the loop \<^verbatim>\<open>for slot in preferred_slots\<close> on
      \<^verbatim>\<open>(available, scheduled_counts, needed, proposal.proposed_events)\<close>; the property
      \<^verbatim>\<open>activity.min_duration\<close> is read at each slot\<close>
  "apps_book_sessions activity prio [] state = Inr state"
| "apps_book_sessions activity prio (slot # rest) (available, counts, needed, proposed) =
     (if needed \<le> 0 then Inr (available, counts, needed, proposed)
      else
        (case apps_min_duration activity of
           Inl err \<Rightarrow> Inl err
         | Inr min_dur \<Rightarrow>
             if apps_duration_minutes slot < min_dur
             then apps_book_sessions activity prio rest (available, counts, needed, proposed)
             else
               (case timedelta_minutes min_dur of
                  Inl err \<Rightarrow> Inl err
                | Inr delta \<Rightarrow>
                    (case datetime_add (a_start slot) delta of
                       Inl err \<Rightarrow> Inl err
                     | Inr event_end \<Rightarrow>
                         if a_end slot < event_end
                         then apps_book_sessions activity prio rest
                                (available, counts, needed, proposed)
                         else
                           (let used = \<lparr>a_start = a_start slot, a_end = event_end,
                                         a_day = a_day slot\<rparr>;
                                booked = \<lparr>pe_activity = activity, pe_slot = used,
                                           pe_priority = prio\<rparr>
                            in apps_book_sessions activity prio rest
                                 (split_slot available slot used,
                                  counts(a_id activity := counts (a_id activity) + 1),
                                  needed - 1, proposed @ [booked]))))))"

definition apps_schedule_activity ::
  "apps_LifeOSConfig \<Rightarrow> (string \<times> apps_requirement) list \<Rightarrow> apps_Activity \<Rightarrow>
     apps_TimeSlot list \<times> (string \<Rightarrow> int) \<times> ProposedEvent list \<Rightarrow>
     py_error + apps_TimeSlot list \<times> (string \<Rightarrow> int) \<times> ProposedEvent list" where
  \<comment> \<open>the body of \<^verbatim>\<open>for activity in sorted_activities\<close>\<close>
  "apps_schedule_activity config requirements activity state =
     (case map_of requirements (a_id activity) of
        None \<Rightarrow> Inl KeyError
      | Some req \<Rightarrow>
          (case state of
             (available, counts, proposed) \<Rightarrow>
               (let current = counts (a_id activity);
                    needed = target_sessions req - current
                in if needed \<le> 0 then Inr state
                   else
                     (case apps_book_sessions activity
                             (apps_get_priority (apps_priorities config) (a_id activity))
                             (apps_filter_slots_by_preference available activity)
                             (available, counts, needed, proposed) of
                        Inl err \<Rightarrow> Inl err
                      | Inr (available', counts', needed', proposed') \<Rightarrow>
                          Inr (available', counts', proposed')))))"

fun apps_schedule_all ::
  "apps_LifeOSConfig \<Rightarrow> (string \<times> apps_requirement) list \<Rightarrow> apps_Activity list \<Rightarrow>
     apps_TimeSlot list \<times> (string \<Rightarrow> int) \<times> ProposedEvent list \<Rightarrow>
     py_error + apps_TimeSlot list \<times> (string \<Rightarrow> int) \<times> ProposedEvent list" where
  "apps_schedule_all config requirements [] state = Inr state"
| "apps_schedule_all config requirements (activity # rest) state =
     (case apps_schedule_activity config requirements activity state of
        Inl err \<Rightarrow> Inl err
      | Inr state' \<Rightarrow> apps_schedule_all config requirements rest state')"

definition sorted_activities :: "apps_LifeOSConfig \<Rightarrow> apps_Activity list" where
  \<comment> \<open>\<^verbatim>\<open>sorted\<close> is stable\<close>
  "sorted_activities config =
     sort_key (\<lambda>a. priority_index (apps_get_priority (apps_priorities config) (a_id a)))
       (apps_activities config)"

definition coverage_of ::
  "(string \<times> apps_requirement) list \<Rightarrow> (string \<Rightarrow> int) \<Rightarrow> (string \<times> coverage_entry) list" where
  "coverage_of requirements counts =
     fold (\<lambda>kv cov.
             dict_set (fst kv)
               \<lparr>cov_scheduled = counts (fst kv), cov_target = target_sessions (snd kv),
                covered = (target_sessions (snd kv) \<le> counts (fst kv))\<rparr> cov)
       requirements []"

definition apps_propose_schedule ::
  "(string \<Rightarrow> string) \<Rightarrow> apps_LifeOSConfig \<Rightarrow> date \<Rightarrow> ScheduledEvent list \<Rightarrow>
     py_error + apps_ScheduleProposal \<times> ScheduledEvent list" where
  \<comment> \<open>returns the proposal and the caller's list as the call leaves it:
      \<^verbatim>\<open>get_available_slots\<close> works on \<^verbatim>\<open>existing_events.copy()\<close>, with the default
      \<^verbatim>\<open>slot_duration\<close> of 30\<close>
  "apps_propose_schedule lower config week_start existing_events =
     (case apps_calculate_weekly_requirements config of
        Inl err \<Rightarrow> Inl err
      | Inr requirements \<Rightarrow>
          (case apps_get_available_slots config week_start existing_events 30 of
             Inl err \<Rightarrow> Inl err
           | Inr (available, copied_events) \<Rightarrow>
               (case apps_analyze_scheduled_vs_required lower config existing_events
                       week_start of
                  Inl err \<Rightarrow> Inl err
                | Inr analysis \<Rightarrow>
                    (let scheduled_counts =
                           fold (\<lambda>kv c. c(fst kv := an_scheduled_sessions (snd kv))) analysis
                             (\<lambda>k. 0)
                     in case apps_schedule_all config requirements (sorted_activities config)
                               (available, scheduled_counts, []) of
                          Inl err \<Rightarrow> Inl err
                        | Inr (available', counts', proposed) \<Rightarrow>
                            Inr (\<lparr>sp_week_start = week_start, proposed_events = proposed,
                                  conflicts = [],
                                  coverage = coverage_of requirements counts'\<rparr>,
                                 existing_events)))))"

subsection \<open>Auxiliary notions\<close>

text \<open>
  The sweep of \<open>find_gaps\<close> seen from outside: \<open>gaps\<close> is the list of slots it appends,
  \<open>cursor\<close> the value of \<^verbatim>\<open>current\<close> when it ends, \<open>last_gap\<close> the trailing slot.
\<close>

definition cursor :: "TimeSlot list \<Rightarrow> datetime \<Rightarrow> datetime" where
  "cursor bs c = fold (\<lambda>b c. max c (slot_end b)) bs c"

definition gaps :: "int \<Rightarrow> TimeSlot list \<Rightarrow> datetime \<Rightarrow> TimeSlot list" where
  "gaps m bs c = fst (find_gaps m bs c [])"

definition last_gap :: "int \<Rightarrow> datetime \<Rightarrow> datetime \<Rightarrow> TimeSlot list" where
  "last_gap m c e = (if c < e then add_gap m c e [] else [])"

subsection \<open>The preference filter in the words of the specification\<close>

text \<open>
  \<open>spec_retains\<close> is the retention rule as the specification words it; \<open>amended_retains\<close>
  is the rule of the root variant: a preference that is absent or empty counts as no
  preference, and \<^verbatim>\<open>"any"\<close> is accepted like \<^verbatim>\<open>"flexible"\<close>. \<open>apps_in_preferred_band\<close> is
  the test by which the apps variant ranks a slot first.
\<close>

definition in_band :: "string \<Rightarrow> int \<Rightarrow> bool" where
  "in_band pref h \<longleftrightarrow>
     pref = ''morning'' \<and> 5 \<le> h \<and> h < 12
   \<or> pref = ''afternoon'' \<and> 12 \<le> h \<and> h < 17
   \<or> pref = ''evening'' \<and> 17 \<le> h \<and> h < 22"

definition prefs_of :: "time_pref option \<Rightarrow> string list" where
  "prefs_of tpref = (case tpref of None \<Rightarrow> [] | Some tp \<Rightarrow> pref_list tp)"

definition spec_retains :: "time_pref option \<Rightarrow> string list option \<Rightarrow> TimeSlot \<Rightarrow> bool" where
  "spec_retains tpref dpref slot \<longleftrightarrow>
     (dpref = None \<or> day_name (slot_start slot) \<in> set (case dpref of None \<Rightarrow> [] | Some l \<Rightarrow> l))
   \<and> (tpref = None \<or> ''flexible'' \<in> set (prefs_of tpref)
        \<or> list_ex (\<lambda>p. in_band p (hour (slot_start slot))) (prefs_of tpref))"

definition no_days :: "'a list option \<Rightarrow> bool" where
  "no_days dpref \<longleftrightarrow> dpref = None \<or> dpref = Some []"

definition no_time_pref :: "time_pref option \<Rightarrow> bool" where
  "no_time_pref tpref \<longleftrightarrow>
     tpref = None \<or> tpref = Some (PrefStr []) \<or> tpref = Some (PrefList [])"

definition amended_retains :: "time_pref option \<Rightarrow> string list option \<Rightarrow> TimeSlot \<Rightarrow> bool" where
  "amended_retains tpref dpref slot \<longleftrightarrow>
     (no_days dpref \<or> day_name (slot_start slot) \<in> set (case dpref of None \<Rightarrow> [] | Some l \<Rightarrow> l))
   \<and> (no_time_pref tpref
        \<or> ''flexible'' \<in> set (prefs_of tpref) \<or> ''any'' \<in> set (prefs_of tpref)
        \<or> list_ex (\<lambda>p. in_band p (hour (slot_start slot))) (prefs_of tpref))"

definition apps_in_preferred_band :: "apps_Activity \<Rightarrow> apps_TimeSlot \<Rightarrow> bool" where
  "apps_in_preferred_band activity slot \<longleftrightarrow>
     fst (TIME_RANGES (a_time_preference activity)) \<le> time_part (a_start slot)
       \<and> time_part (a_start slot) < snd (TIME_RANGES (a_time_preference activity))
     \<or> a_time_preference activity = FLEXIBLE"

subsection \<open>Example inputs of the apps variant\<close>

text \<open>
  \<open>ascii_lower\<close> folds the letters A to Z and leaves every other character; it is
  \<^verbatim>\<open>str.lower\<close> on strings of ASCII characters, which the names and titles of the examples
  are.
\<close>

definition lower_char :: "char \<Rightarrow> char" where
  "lower_char c =
     (if 65 \<le> (of_char c :: nat) \<and> (of_char c :: nat) \<le> 90
      then char_of ((of_char c :: nat) + 32) else c)"

definition ascii_lower :: "string \<Rightarrow> string" where
  "ascii_lower s = map lower_char s"

text \<open>
  Day 739634 after 0001-01-01 is Monday 2026-01-19. \<open>quiet_config\<close> has no work template
  and no commitment, \<open>office_config\<close> works on Mondays from 09:00 to 17:00 and
  \<open>night_shift_config\<close> has a Monday work template from 22:00 to 06:00. \<open>late_call\<close> is
  an event on that Monday from 23:00 to 23:30.
\<close>

definition quiet_config :: apps_LifeOSConfig where
  "quiet_config = \<lparr>apps_work = None, apps_commitments = [], apps_activities = [],
     apps_priorities = \<lparr>critical = [], high = [], medium = [], low = []\<rparr>\<rparr>"

definition office_config :: apps_LifeOSConfig where
  "office_config = \<lparr>apps_work = Some \<lparr>work_days = [MONDAY],
       work_start_time = time_of 9 0, work_end_time = time_of 17 0\<rparr>,
     apps_commitments = [], apps_activities = [],
     apps_priorities = \<lparr>critical = [], high = [], medium = [], low = []\<rparr>\<rparr>"

definition night_shift_config :: apps_LifeOSConfig where
  "night_shift_config = \<lparr>apps_work = Some \<lparr>work_days = [MONDAY],
       work_start_time = time_of 22 0, work_end_time = time_of 6 0\<rparr>,
     apps_commitments = [], apps_activities = [],
     apps_priorities = \<lparr>critical = [], high = [], medium = [], low = []\<rparr>\<rparr>"

definition night_shift :: ScheduledEvent where
  \<comment> \<open>the work block that \<open>night_shift_config\<close> yields on that Monday\<close>
  "night_shift = \<lparr>se_id = WorkId 739634, se_title = ''Work'',
     se_start = combine 739634 (time_of 22 0), se_end = combine 739634 (time_of 6 0),
     se_activity_id = None, se_location = None, se_description = None\<rparr>"

definition late_call :: ScheduledEvent where
  "late_call = \<lparr>se_id = Ident ''e1'', se_title = ''Late call'',
     se_start = combine 739634 (time_of 23 0), se_end = combine 739634 (time_of 23 30),
     se_activity_id = None, se_location = None, se_description = None\<rparr>"

subsection \<open>Proposals fed back as events\<close>

text \<open>
  \<open>proposals_for\<close> selects the proposals of one activity id, \<open>proposed_minutes\<close> sums their
  lengths, and \<open>with_proposals\<close> is a coverage entry after these proposals were counted
  once each. \<open>reader_config\<close> is a root configuration with one weekly activity.
\<close>

definition proposals_for :: "string \<Rightarrow> ScheduleProposal list \<Rightarrow> ScheduleProposal list" where
  "proposals_for aid ps = filter (\<lambda>p. act_id (p_activity p) = aid) ps"

definition proposed_minutes :: "string \<Rightarrow> ScheduleProposal list \<Rightarrow> int" where
  "proposed_minutes aid ps =
     sum_list (map (\<lambda>p. whole_minutes (p_end p - p_start p)) (proposals_for aid ps))"

definition with_proposals ::
  "ScheduleProposal list \<Rightarrow> string \<times> analysis_entry \<Rightarrow> string \<times> analysis_entry" where
  "with_proposals ps x =
     (let sessions = scheduled_sessions (snd x) + int (length (proposals_for (fst x) ps));
          mins = scheduled_minutes (snd x) + proposed_minutes (fst x) ps
      in (fst x,
          (snd x)\<lparr>scheduled_sessions := sessions,
                  scheduled_minutes := mins,
                  sessions_deficit := max 0 (fst (required_sessions (snd x)) - sessions),
                  sessions_surplus := max 0 (sessions - snd (required_sessions (snd x))),
                  minutes_deficit := max 0 (fst (required_minutes (snd x)) - mins)\<rparr>))"

definition reading :: Activity where
  "reading = \<lparr>act_id = ''reading'', act_name = ''Reading'', category = ''learning'',
     frequency = SWeekly, duration = SInt 30, days_preference = None,
     time_preference = None\<rparr>"

definition reader_config :: LifeOSConfig where
  "reader_config = \<lparr>activities = [reading],
     priorities = \<lparr>critical = [], high = [], medium = [''reading''], low = []\<rparr>\<rparr>"

subsection \<open>The booking loop seen from outside\<close>

text \<open>
  \<open>session\<close> is the proposal booked on a slot and \<open>shrink\<close> the update of the slot at a
  position of \<^verbatim>\<open>available\<close>; \<open>booked_positions\<close> are the first \<open>needed\<close> positions of the
  walk whose slot is long enough. \<open>apps_used\<close> and \<open>apps_booked\<close> are their counterparts in
  the apps variant, which walks slots, not positions. \<open>exercise\<close> is an activity of 45
  minutes with a deficit of 2 sessions.
\<close>

definition session :: "Activity \<Rightarrow> string \<Rightarrow> int \<Rightarrow> TimeSlot \<Rightarrow> ScheduleProposal" where
  "session activity prio min_dur slot =
     \<lparr>p_activity = activity, p_start = slot_start slot,
      p_end = slot_start slot + minutes (min min_dur (duration_minutes slot)),
      p_priority = prio\<rparr>"

definition shrink :: "int \<Rightarrow> nat \<Rightarrow> TimeSlot list \<Rightarrow> TimeSlot list" where
  "shrink min_dur i available =
     available[i := (available ! i)\<lparr>slot_start :=
        slot_start (available ! i) + minutes (min min_dur (duration_minutes (available ! i)))\<rparr>]"

definition booked_positions :: "int \<Rightarrow> int \<Rightarrow> TimeSlot list \<Rightarrow> nat list \<Rightarrow> nat list" where
  "booked_positions min_dur needed available walk =
     take (nat needed) (filter (\<lambda>i. min_dur \<le> duration_minutes (available ! i)) walk)"

definition apps_used :: "int \<Rightarrow> apps_TimeSlot \<Rightarrow> apps_TimeSlot" where
  "apps_used min_dur slot =
     \<lparr>a_start = a_start slot, a_end = a_start slot + minutes min_dur, a_day = a_day slot\<rparr>"

definition apps_booked :: "int \<Rightarrow> int \<Rightarrow> apps_TimeSlot list \<Rightarrow> apps_TimeSlot list" where
  "apps_booked min_dur needed preferred =
     take (nat needed) (filter (\<lambda>s. min_dur \<le> apps_duration_minutes s) preferred)"

definition exercise :: Activity where
  "exercise = \<lparr>act_id = ''exercise'', act_name = ''Exercise'', category = ''health'',
     frequency = SInt 3, duration = SInt 45, days_preference = None,
     time_preference = None\<rparr>"

definition exercise_entry :: "string \<times> analysis_entry" where
  "exercise_entry = (''exercise'',
     \<lparr>an_activity = exercise, required_sessions = (3, 3), required_minutes = (135, 135),
      scheduled_sessions = 1, scheduled_minutes = 45, sessions_deficit = 2,
      sessions_surplus = 0, minutes_deficit = 90, an_priority = ''critical''\<rparr>)"

definition apps_exercise :: apps_Activity where
  "apps_exercise = \<lparr>a_id = ''exercise'', a_name = ''Exercise'', a_frequency = SInt 3,
     a_duration = SInt 45, a_time_preference = FLEXIBLE, a_days_preference = None\<rparr>"

subsection \<open>Example inputs with preferences\<close>

text \<open>
  \<open>yoga\<close> is a root activity that prefers the morning, with a deficit of one session.
  \<open>choir\<close> is an apps activity that prefers Sunday evenings; \<open>family_day\<close> is an event
  that fills Sunday 2026-01-25 from 06:00 to 22:00.
\<close>

definition yoga :: Activity where
  "yoga = \<lparr>act_id = ''yoga'', act_name = ''Yoga'', category = ''health'',
     frequency = SWeekly, duration = SInt 45, days_preference = None,
     time_preference = Some (PrefStr ''morning'')\<rparr>"

definition yoga_entry :: "string \<times> analysis_entry" where
  "yoga_entry = (''yoga'',
     \<lparr>an_activity = yoga, required_sessions = (1, 1), required_minutes = (45, 45),
      scheduled_sessions = 0, scheduled_minutes = 0, sessions_deficit = 1,
      sessions_surplus = 0, minutes_deficit = 45, an_priority = ''medium''\<rparr>)"

definition choir :: apps_Activity where
  "choir = \<lparr>a_id = ''choir'', a_name = ''Choir'', a_frequency = SWeekly,
     a_duration = SInt 45, a_time_preference = EVENING, a_days_preference = Some [SUNDAY]\<rparr>"

definition choir_config :: apps_LifeOSConfig where
  "choir_config = \<lparr>apps_work = None, apps_commitments = [], apps_activities = [choir],
     apps_priorities = \<lparr>critical = [], high = [''choir''], medium = [], low = []\<rparr>\<rparr>"

definition family_day :: ScheduledEvent where
  "family_day = \<lparr>se_id = Ident ''e2'', se_title = ''Family day'',
     se_start = combine 739640 (time_of 6 0), se_end = combine 739640 (time_of 22 0),
     se_activity_id = None, se_location = None, se_description = None\<rparr>"

section \<open>Properties\<close>

subsection \<open>Whole minutes in double precision\<close>

text \<open>
  The rounding of \<open>to_double\<close> is monotone and leaves the doubles fixed; this bounds the
  result of each division from both sides (\<open>quotient_lower\<close>, \<open>quotient_upper\<close>). For a
  difference below \<open>2 ^ 45\<close> microseconds, more than a year, the minutes computed in
  double precision are the exact whole minutes.
\<close>

lemma rne_ge: "0 < d \<Longrightarrow> W * d \<le> n \<Longrightarrow> W \<le> rne n d"
proof -
  assume d: "0 < d" and le: "W * d \<le> n"
  have "W * d div d \<le> n div d" using le d by (intro zdiv_mono1) auto
  then have "W \<le> n div d" using d by simp
  then show ?thesis by (simp add: rne_def Let_def)
qed

lemma rne_le: "0 < d \<Longrightarrow> n \<le> W * d \<Longrightarrow> rne n d \<le> W"
proof -
  assume d: "0 < d" and le: "n \<le> W * d"
  have q: "n div d \<le> W"
  proof -
    have "n div d \<le> W * d div d" using le d by (intro zdiv_mono1) auto
    then show ?thesis using d by simp
  qed
  show ?thesis
  proof (cases "n mod d = 0")
    case True
    then show ?thesis using q d by (simp add: rne_def Let_def)
  next
    case False
    have "n div d \<noteq> W"
    proof
      assume "n div d = W"
      then have "n = W * d + n mod d" using div_mult_mod_eq [of n d] by simp
      moreover have "0 < n mod d" using False d pos_mod_sign [of d n] by linarith
      ultimately show False using le by simp
    qed
    then have "n div d + 1 \<le> W" using q by simp
    then show ?thesis using q by (simp add: rne_def Let_def)
  qed
qed

lemma scale_up_bounds:
  "0 < n \<Longrightarrow> 0 < d \<Longrightarrow> n < 2 ^ 53 * d \<Longrightarrow>
   2 ^ 52 * d \<le> n * 2 ^ scale_up n d \<and> n * 2 ^ scale_up n d < 2 ^ 53 * d"
proof (induction n d rule: scale_up.induct)
  case (1 n d)
  show ?case
  proof (cases "n < 2 ^ 52 * d")
    case True
    then have "2 * n < 2 ^ 53 * d" by simp
    then have "2 ^ 52 * d \<le> 2 * n * 2 ^ scale_up (2 * n) d
               \<and> 2 * n * 2 ^ scale_up (2 * n) d < 2 ^ 53 * d"
      using 1 True by simp
    moreover have "scale_up n d = Suc (scale_up (2 * n) d)"
      using True 1(2) by (subst scale_up.simps) simp
    ultimately show ?thesis by (simp add: mult.assoc mult.left_commute)
  next
    case False
    then have "scale_up n d = 0" by (subst scale_up.simps) simp
    then show ?thesis using False 1 by simp
  qed
qed

lemma scale_down_zero: "n < 2 ^ 53 * d \<Longrightarrow> scale_down n d = 0"
  by (subst scale_down.simps) simp

lemma to_double_small:
  "0 < n \<Longrightarrow> n < 2 ^ 53 * d \<Longrightarrow>
   to_double n d = (rne (n * 2 ^ scale_up n d) d, - int (scale_up n d))"
  by (simp add: to_double_def scale_down_zero)

lemma quotient_upper:
  assumes n: "0 < n" and d: "0 < d" and small: "n < 2 ^ 53 * d"
    and w: "w < 2 ^ 53" and le: "n * 2 ^ a \<le> w * d"
  shows "rne (n * 2 ^ scale_up n d) d * 2 ^ a \<le> w * 2 ^ scale_up n d"
proof -
  let ?u = "scale_up n d"
  have b: "2 ^ 52 * d \<le> n * 2 ^ ?u" using scale_up_bounds [OF n d small] by simp
  show ?thesis
  proof (cases "a \<le> ?u")
    case True
    then obtain j where j: "?u = a + j" using le_Suc_ex by blast
    have "n * 2 ^ a * 2 ^ j \<le> w * d * 2 ^ j"
      using le by (intro mult_right_mono) auto
    then have "n * 2 ^ ?u \<le> (w * 2 ^ j) * d"
      by (simp add: j power_add mult.assoc mult.left_commute mult.commute)
    then have "rne (n * 2 ^ ?u) d \<le> w * 2 ^ j" using d by (rule rne_le [rotated])
    then have "rne (n * 2 ^ ?u) d * 2 ^ a \<le> w * 2 ^ j * 2 ^ a"
      by (intro mult_right_mono) auto
    then show ?thesis by (simp add: j power_add mult.assoc mult.left_commute mult.commute)
  next
    case False
    then obtain j where j: "a = ?u + Suc j" using less_imp_Suc_add not_le by (metis add_Suc_right)
    have "2 ^ 52 * d * 2 ^ Suc j \<le> n * 2 ^ ?u * 2 ^ Suc j"
      using b by (intro mult_right_mono) auto
    also have "\<dots> = n * 2 ^ a" by (simp add: j power_add mult.assoc)
    also have "\<dots> \<le> w * d" by (rule le)
    finally have "(2 ^ 53 * 2 ^ j) * d \<le> w * d" by (simp add: mult.assoc mult.left_commute mult.commute)
    then have "9007199254740992 * 2 ^ j \<le> w" using d by simp
    moreover have "(1::int) \<le> 2 ^ j" by simp
    moreover have "w < 9007199254740992" using w by simp
    ultimately have False by linarith
    then show ?thesis ..
  qed
qed

lemma quotient_lower:
  assumes n: "0 < n" and d: "0 < d" and small: "n < 2 ^ 53 * d"
    and w: "0 \<le> w" "w \<le> 2 ^ 53" and le: "w * d \<le> n * 2 ^ a"
  shows "w * 2 ^ scale_up n d \<le> rne (n * 2 ^ scale_up n d) d * 2 ^ a"
proof -
  let ?u = "scale_up n d"
  have b: "2 ^ 52 * d \<le> n * 2 ^ ?u" using scale_up_bounds [OF n d small] by simp
  show ?thesis
  proof (cases "a \<le> ?u")
    case True
    then obtain j where j: "?u = a + j" using le_Suc_ex by blast
    have "w * d * 2 ^ j \<le> n * 2 ^ a * 2 ^ j"
      using le by (intro mult_right_mono) auto
    then have "(w * 2 ^ j) * d \<le> n * 2 ^ ?u"
      by (simp add: j power_add mult.assoc mult.left_commute mult.commute)
    then have "w * 2 ^ j \<le> rne (n * 2 ^ ?u) d" using d by (rule rne_ge [rotated])
    then have "w * 2 ^ j * 2 ^ a \<le> rne (n * 2 ^ ?u) d * 2 ^ a"
      by (intro mult_right_mono) auto
    then show ?thesis by (simp add: j power_add mult.assoc mult.left_commute mult.commute)
  next
    case False
    then obtain j where j: "a = ?u + Suc j" using less_imp_Suc_add not_le by (metis add_Suc_right)
    have m: "2 ^ 52 \<le> rne (n * 2 ^ ?u) d" using d b by (rule rne_ge)
    have "w * 2 ^ ?u \<le> 2 ^ 53 * 2 ^ ?u" using w by (intro mult_right_mono) auto
    also have "\<dots> \<le> 2 ^ 52 * (2 ^ ?u * (2 * 2 ^ j))"
    proof -
      have "(1::int) \<le> 2 ^ j" by simp
      then have "(2::int) ^ 53 * 2 ^ ?u * 1 \<le> 2 ^ 53 * 2 ^ ?u * 2 ^ j"
        by (intro mult_left_mono) auto
      then show ?thesis by (simp add: mult.assoc mult.left_commute mult.commute)
    qed
    also have "\<dots> = 2 ^ 52 * 2 ^ a" by (simp add: j power_add)
    also have "\<dots> \<le> rne (n * 2 ^ ?u) d * 2 ^ a" using m by (intro mult_right_mono) auto
    finally show ?thesis .
  qed
qed

lemma whole_minutes_exact:
  assumes "0 \<le> d" and "d < 2 ^ 45"
  shows "whole_minutes d = d div 60000000"
proof (cases "d = 0")
  case True
  then show ?thesis
    by (simp add: whole_minutes_def to_double_def double_div_def double_trunc_def)
next
  case False
  then have pos: "0 < d" using assms by simp
  define k where "k = d div 60000000"
  define u where "u = scale_up d 1000000"
  define m where "m = rne (d * 2 ^ u) 1000000"
  define v where "v = scale_up m (60 * 2 ^ u)"
  define r where "r = rne (m * 2 ^ v) (60 * 2 ^ u)"
  have k0: "0 \<le> k" using pos by (simp add: k_def pos_imp_zdiv_nonneg_iff)
  have kd: "60000000 * k \<le> d" "d < 60000000 * k + 60000000"
    using div_mult_mod_eq [of d 60000000] pos_mod_bound [of 60000000 d]
      pos_mod_sign [of 60000000 d] by (simp_all add: k_def)
  have kb: "k < 2 ^ 20" using kd assms by simp
  have small: "d < 2 ^ 53 * 1000000" using assms by simp
  have first: "to_double d 1000000 = (m, - int u)"
    using to_double_small [OF pos small] by (simp add: m_def u_def)
  have b1: "2 ^ 52 * 1000000 \<le> d * 2 ^ u" "d * 2 ^ u < 2 ^ 53 * 1000000"
    using scale_up_bounds [OF pos _ small] by (simp_all add: u_def)
  have m_lo: "2 ^ 52 \<le> m" unfolding m_def by (rule rne_ge) (use b1 in simp_all)
  have m_hi: "m \<le> 2 ^ 53" unfolding m_def by (rule rne_le) (use b1 in simp_all)
  have mpos: "0 < m" using m_lo by simp
  have dpos: "(0::int) < 60 * 2 ^ u" by simp
  have msmall: "m < 2 ^ 53 * (60 * 2 ^ u)"
  proof -
    have "(1::int) \<le> 2 ^ u" by simp
    moreover have "m \<le> 9007199254740992" using m_hi by simp
    ultimately have "m < 540431955284459520 * 2 ^ u" by linarith
    then show ?thesis by simp
  qed
  have second: "double_div (m, - int u) 60 = (r, - int v)"
    using to_double_small [OF mpos msmall] by (simp add: double_div_def r_def v_def)
  have lo1: "(60 * k) * 2 ^ u \<le> m * 2 ^ 0"
    unfolding m_def u_def
    by (rule quotient_lower [OF pos _ small]) (use k0 kb kd in simp_all)
  have hi1: "m * 2 ^ 24 \<le> (60 * (k + 1) * 2 ^ 24 - 1) * 2 ^ u"
    unfolding m_def u_def
    by (rule quotient_upper [OF pos _ small]) (use k0 kb kd in simp_all)
  have lo2: "k * 2 ^ v \<le> r * 2 ^ 0"
    unfolding r_def v_def
    by (rule quotient_lower [OF mpos dpos msmall]) (use k0 kb lo1 in \<open>simp_all add: mult.assoc mult.left_commute\<close>)
  have hi2: "r * 2 ^ 30 \<le> ((k + 1) * 2 ^ 30 - 1) * 2 ^ v"
    unfolding r_def v_def
  proof (rule quotient_upper [OF mpos dpos msmall])
    show "(k + 1) * 2 ^ 30 - 1 < 2 ^ 53" using kb by simp
    have "m * 2 ^ 24 * 64 \<le> (60 * (k + 1) * 2 ^ 24 - 1) * 2 ^ u * 64"
      using hi1 by (intro mult_right_mono) auto
    also have "\<dots> = (60 * (k + 1) * 2 ^ 30 - 64) * 2 ^ u" by (simp add: algebra_simps)
    also have "\<dots> \<le> (60 * (k + 1) * 2 ^ 30 - 60) * 2 ^ u"
      by (intro mult_right_mono) auto
    also have "\<dots> = ((k + 1) * 2 ^ 30 - 1) * (60 * 2 ^ u)" by (simp add: algebra_simps)
    finally show "m * 2 ^ 30 \<le> ((k + 1) * 2 ^ 30 - 1) * (60 * 2 ^ u)" by simp
  qed
  have r_lo: "k * 2 ^ v \<le> r" using lo2 by simp
  have r_hi: "r < (k + 1) * 2 ^ v"
  proof -
    have "((k + 1) * 2 ^ 30 - 1) * 2 ^ v = 1073741824 * (k * 2 ^ v) + 1073741823 * 2 ^ v"
      by (simp add: algebra_simps)
    then have "r * 1073741824 \<le> 1073741824 * (k * 2 ^ v) + 1073741823 * 2 ^ v"
      using hi2 by simp
    moreover have "(0::int) < 2 ^ v" by simp
    ultimately have "r < k * 2 ^ v + 2 ^ v" by linarith
    then show ?thesis by (simp add: algebra_simps)
  qed
  have "r div 2 ^ v = k"
  proof (rule int_div_pos_eq [of _ _ _ "r - k * 2 ^ v"])
    show "r = 2 ^ v * k + (r - k * 2 ^ v)" by simp
    show "0 \<le> r - k * 2 ^ v" using r_lo by simp
    show "r - k * 2 ^ v < 2 ^ v" using r_hi by (simp add: algebra_simps)
  qed
  then show ?thesis
    using assms first second by (simp add: whole_minutes_def double_trunc_def k_def)
qed

lemma rne_nonneg: "0 \<le> n \<Longrightarrow> 0 < d \<Longrightarrow> 0 \<le> rne n d"
  using rne_ge [of d 0 n] by simp

lemma to_double_nonneg: "0 < d \<Longrightarrow> 0 \<le> fst (to_double n d)"
  by (simp add: to_double_def rne_nonneg)

lemma whole_minutes_nonneg: "0 \<le> d \<Longrightarrow> 0 \<le> whole_minutes d"
proof -
  assume "0 \<le> d"
  have "0 \<le> fst (double_div (to_double d 1000000) 60)"
    unfolding double_div_def by (rule to_double_nonneg) simp
  then have "0 \<le> double_trunc (double_div (to_double d 1000000) 60)"
    by (simp add: double_trunc_def pos_imp_zdiv_nonneg_iff)
  then show ?thesis using \<open>0 \<le> d\<close> by (simp add: whole_minutes_def)
qed

lemma whole_minutes_small:
  "0 \<le> d \<Longrightarrow> d < 35184372088832 \<Longrightarrow> whole_minutes d = d div 60000000"
  using whole_minutes_exact [of d] by simp

subsection \<open>The availability sweep of the root variant\<close>

lemma snd_find_gaps: "snd (find_gaps m bs c acc) = cursor bs c"
  by (induction bs arbitrary: c acc) (simp_all add: cursor_def)

lemma fst_find_gaps_acc:
  "fst (find_gaps m bs c acc) = acc @ fst (find_gaps m bs c [])"
proof (induction bs arbitrary: c acc)
  case Nil
  show ?case by simp
next
  case (Cons b bs)
  show ?case
    apply (simp only: find_gaps.simps)
    apply (subst Cons.IH)
    apply (subst (2) Cons.IH)
    apply (simp add: add_gap_def Let_def)
    done
qed

lemma gaps_Nil: "gaps m [] c = []"
  by (simp add: gaps_def)

lemma gaps_Cons:
  "gaps m (b # bs) c =
     (if c < slot_start b then add_gap m c (slot_start b) [] else [])
       @ gaps m bs (max c (slot_end b))"
  unfolding gaps_def
  apply (simp only: find_gaps.simps)
  apply (subst fst_find_gaps_acc)
  apply simp
  done

lemma cursor_Cons: "cursor (b # bs) c = cursor bs (max c (slot_end b))"
  by (simp add: cursor_def)

lemma cursor_ge: "c \<le> cursor bs c"
proof (induction bs arbitrary: c)
  case Nil show ?case by (simp add: cursor_def)
next
  case (Cons b bs)
  have "c \<le> max c (slot_end b)" by simp
  also have "\<dots> \<le> cursor bs (max c (slot_end b))" by (rule Cons.IH)
  finally show ?case by (simp add: cursor_Cons)
qed

lemma cursor_ends: "b \<in> set bs \<Longrightarrow> slot_end b \<le> cursor bs c"
proof (induction bs arbitrary: c)
  case Nil then show ?case by simp
next
  case (Cons a bs)
  show ?case
  proof (cases "b = a")
    case True
    have "slot_end a \<le> max c (slot_end a)" by simp
    also have "\<dots> \<le> cursor bs (max c (slot_end a))" by (rule cursor_ge)
    finally show ?thesis using True by (simp add: cursor_Cons)
  next
    case False
    with Cons.prems have "b \<in> set bs" by simp
    then show ?thesis using Cons.IH by (simp add: cursor_Cons)
  qed
qed

lemma cursor_le: "c \<le> e \<Longrightarrow> \<forall>b\<in>set bs. slot_end b \<le> e \<Longrightarrow> cursor bs c \<le> e"
  by (induction bs arbitrary: c) (simp_all add: cursor_def)

lemma gaps_filter:
  "gaps m bs c = filter (\<lambda>g. m \<le> duration_minutes g) (gaps 0 bs c)"
proof (induction bs arbitrary: c)
  case Nil show ?case by (simp add: gaps_Nil)
next
  case (Cons b bs)
  have "c < slot_start b \<Longrightarrow> 0 \<le> duration_minutes (free_slot c (slot_start b))"
    by (simp add: duration_minutes_def free_slot_def whole_minutes_nonneg)
  then show ?case
    by (simp add: gaps_Cons Cons.IH add_gap_def Let_def)
qed

lemma gaps_bounds:
  "\<forall>b\<in>set bs. slot_start b \<le> slot_end b \<Longrightarrow> g \<in> set (gaps m bs c) \<Longrightarrow>
     c \<le> slot_start g \<and> slot_start g < slot_end g \<and> slot_end g \<le> cursor bs c"
proof (induction bs arbitrary: c)
  case Nil then show ?case by (simp add: gaps_Nil)
next
  case (Cons b bs)
  from Cons.prems(2) consider
    (first) "c < slot_start b" "g = free_slot c (slot_start b)"
  | (rest) "g \<in> set (gaps m bs (max c (slot_end b)))"
    by (auto simp: gaps_Cons add_gap_def Let_def split: if_splits)
  then show ?case
  proof cases
    case first
    have "slot_start b \<le> slot_end b" using Cons.prems(1) by simp
    also have "\<dots> \<le> cursor (b # bs) c" by (rule cursor_ends) simp
    finally show ?thesis using first by (simp add: free_slot_def)
  next
    case rest
    have wf: "\<forall>b\<in>set bs. slot_start b \<le> slot_end b" using Cons.prems(1) by simp
    from Cons.IH[OF wf rest] show ?thesis by (simp add: cursor_Cons)
  qed
qed

lemma gaps_sorted:
  "\<forall>b\<in>set bs. slot_start b \<le> slot_end b \<Longrightarrow>
     sorted_wrt (\<lambda>a b. slot_end a \<le> slot_start b) (gaps m bs c)"
proof (induction bs arbitrary: c)
  case Nil show ?case by (simp add: gaps_Nil)
next
  case (Cons b bs)
  have wf: "\<forall>b\<in>set bs. slot_start b \<le> slot_end b" and wfb: "slot_start b \<le> slot_end b"
    using Cons.prems by simp_all
  have later: "slot_start b \<le> slot_start g" if "g \<in> set (gaps m bs (max c (slot_end b)))" for g
    using gaps_bounds[OF wf that] wfb by simp
  show ?case
    using Cons.IH[OF wf] later
    by (auto simp: gaps_Cons add_gap_def Let_def sorted_wrt_append free_slot_def)
qed

lemma gaps_avoid_busy:
  assumes "sorted (map slot_start bs)" and "\<forall>b\<in>set bs. slot_start b \<le> slot_end b"
    and "g \<in> set (gaps m bs c)" and "b \<in> set bs"
  shows "\<not> overlaps g b"
  using assms
proof (induction bs arbitrary: c)
  case Nil then show ?case by simp
next
  case (Cons a bs)
  have wf: "\<forall>b\<in>set bs. slot_start b \<le> slot_end b" and wfa: "slot_start a \<le> slot_end a"
    and srt: "sorted (map slot_start bs)" and first: "\<forall>x\<in>set bs. slot_start a \<le> slot_start x"
    using Cons.prems by simp_all
  from Cons.prems(3) consider
    (first) "c < slot_start a" "g = free_slot c (slot_start a)"
  | (rest) "g \<in> set (gaps m bs (max c (slot_end a)))"
    by (auto simp: gaps_Cons add_gap_def Let_def split: if_splits)
  then show ?case
  proof cases
    case first
    have "slot_start a \<le> slot_start b" using Cons.prems(4) \<open>\<forall>x\<in>set bs. slot_start a \<le> slot_start x\<close> by auto
    then show ?thesis using first by (simp add: overlaps_def free_slot_def)
  next
    case rest
    show ?thesis
    proof (cases "b = a")
      case True
      from gaps_bounds[OF wf rest] have "slot_end a \<le> slot_start g" by simp
      then show ?thesis using True by (simp add: overlaps_def)
    next
      case False
      with Cons.prems(4) have "b \<in> set bs" by simp
      from Cons.IH[OF srt wf rest this] show ?thesis .
    qed
  qed
qed

lemma gaps_cover:
  assumes "sorted (map slot_start bs)" and "\<forall>b\<in>set bs. slot_start b \<le> slot_end b"
  shows "{t. \<exists>g\<in>set (gaps 0 bs c). contains g t} =
           {t. c \<le> t \<and> t < cursor bs c} - {t. \<exists>b\<in>set bs. contains b t}"
  using assms
proof (induction bs arbitrary: c)
  case Nil show ?case by (simp add: gaps_Nil cursor_def)
next
  case (Cons a bs)
  have wf: "\<forall>b\<in>set bs. slot_start b \<le> slot_end b" and wfa: "slot_start a \<le> slot_end a"
    and srt: "sorted (map slot_start bs)" and first: "\<forall>x\<in>set bs. slot_start a \<le> slot_start x"
    using Cons.prems by simp_all
  let ?c = "max c (slot_end a)"
  note IH = Cons.IH[OF srt wf, of ?c]
  have ge: "?c \<le> cursor bs ?c" by (rule cursor_ge)
  have keep: "c < slot_start a \<Longrightarrow> add_gap 0 c (slot_start a) [] = [free_slot c (slot_start a)]"
    by (simp add: add_gap_def Let_def duration_minutes_def free_slot_def whole_minutes_nonneg)
  show ?case
  proof (rule set_eqI)
    fix t
    have "(\<exists>g\<in>set (gaps 0 bs ?c). contains g t) \<longleftrightarrow>
          (?c \<le> t \<and> t < cursor bs ?c \<and> \<not> (\<exists>b\<in>set bs. contains b t))"
      using IH by blast
    moreover have "\<not> contains b t" if "b \<in> set bs" "t < slot_start a" for b
      using that first by (auto simp: contains_def)
    ultimately show "t \<in> {t. \<exists>g\<in>set (gaps 0 (a # bs) c). contains g t} \<longleftrightarrow>
          t \<in> {t. c \<le> t \<and> t < cursor (a # bs) c} - {t. \<exists>b\<in>set (a # bs). contains b t}"
      using wfa ge
      by (auto simp: gaps_Cons keep cursor_Cons contains_def free_slot_def)
  qed
qed


lemma no_overlap_of_sorted:
  assumes "sorted_wrt (\<lambda>a b. slot_end a \<le> slot_start b) xs" and "i < j" and "j < length xs"
  shows "\<not> overlaps (xs ! i) (xs ! j)"
proof -
  from sorted_wrt_nth_less[OF assms] have "slot_end (xs ! i) \<le> slot_start (xs ! j)" .
  then show ?thesis by (simp add: overlaps_def)
qed

lemma get_available_slots_eq:
  "busy_slots events = Inr busy \<Longrightarrow>
   get_available_slots events sd ed m =
     Inr (gaps m (sort_key slot_start busy) sd
          @ last_gap m (cursor (sort_key slot_start busy) sd) ed)"
proof -
  assume b: "busy_slots events = Inr busy"
  obtain av cur where fg: "find_gaps m (sort_key slot_start busy) sd [] = (av, cur)"
    by (cases "find_gaps m (sort_key slot_start busy) sd []")
  have av: "av = gaps m (sort_key slot_start busy) sd" using fg by (simp add: gaps_def)
  have cur: "cur = cursor (sort_key slot_start busy) sd"
    using snd_find_gaps[of m "sort_key slot_start busy" sd "[]"] fg by simp
  show ?thesis
    unfolding get_available_slots_def
    by (simp add: b fg av cur last_gap_def add_gap_def Let_def)
qed

lemma last_gap_filter:
  "last_gap m c e = filter (\<lambda>g. m \<le> duration_minutes g) (last_gap 0 c e)"
  by (simp add: last_gap_def add_gap_def Let_def duration_minutes_def free_slot_def
      whole_minutes_nonneg)

lemma last_gap_zero: "last_gap 0 c e = (if c < e then [free_slot c e] else [])"
  by (simp add: last_gap_def add_gap_def Let_def duration_minutes_def free_slot_def
      whole_minutes_nonneg)

subsection \<open>Week bounds\<close>

lemma date_of_shift: "date_of (t - days k) = date_of t - k"
proof -
  have "us_per_day \<noteq> 0" by (simp add: us_per_day_def)
  then have "(t + (- k) * us_per_day) div us_per_day = (- k) + t div us_per_day"
    by (rule div_mult_self1)
  then show ?thesis by (simp add: date_of_def days_def)
qed

lemma date_of_days: "date_of (days n) = n"
  by (simp add: date_of_def days_def us_per_day_def)

lemma time_part_days: "time_part (days n) = 0"
  by (simp add: time_part_def days_def)

subsection \<open>The preference filter\<close>

lemma fold_pref_step:
  "fold (pref_step h) prefs acc
     = (acc \<or> list_ex (\<lambda>p. p = ''flexible'' \<or> p = ''any'') prefs \<or> list_ex (\<lambda>p. in_band p h) prefs)"
proof (induction prefs arbitrary: acc)
  case Nil show ?case by simp
next
  case (Cons p prefs)
  show ?case by (simp only: fold_Cons_rev fold.simps o_apply Cons.IH)
     (auto simp: pref_step_def in_band_def)
qed

lemma slot_kept_amended: "slot_kept tpref dpref slot = amended_retains tpref dpref slot"
proof -
  have d: "day_rejected dpref slot
     = (\<not> (no_days dpref \<or> day_name (slot_start slot) \<in> set (case dpref of None \<Rightarrow> [] | Some l \<Rightarrow> l)))"
    by (cases dpref) (auto simp: day_rejected_def no_days_def)
  have t: "time_rejected tpref slot
     = (\<not> (no_time_pref tpref
        \<or> ''flexible'' \<in> set (prefs_of tpref) \<or> ''any'' \<in> set (prefs_of tpref)
        \<or> list_ex (\<lambda>p. in_band p (hour (slot_start slot))) (prefs_of tpref)))"
  proof (cases tpref)
    case None
    then show ?thesis by (simp add: time_rejected_def no_time_pref_def)
  next
    case (Some tp)
    have "time_rejected tpref slot
       = (pref_truthy tp \<and> \<not> (list_ex (\<lambda>p. p = ''flexible'' \<or> p = ''any'') (pref_list tp)
            \<or> list_ex (\<lambda>p. in_band p (hour (slot_start slot))) (pref_list tp)))"
      unfolding time_rejected_def Some by (simp only: option.case fold_pref_step) simp
    moreover have "prefs_of tpref = pref_list tp" by (simp add: prefs_of_def Some)
    moreover have "no_time_pref tpref = (\<not> pref_truthy tp)"
      by (cases tp) (auto simp: no_time_pref_def pref_truthy_def Some)
    moreover have "\<not> pref_truthy tp \<Longrightarrow>
       \<not> list_ex (\<lambda>p. p = ''flexible'' \<or> p = ''any'') (pref_list tp)
       \<and> \<not> list_ex (\<lambda>p. in_band p (hour (slot_start slot))) (pref_list tp)"
      by (cases tp) (auto simp: pref_truthy_def pref_list_def in_band_def)
    ultimately show ?thesis by (auto simp: list_ex_iff)
  qed
  show ?thesis unfolding slot_kept_def amended_retains_def d t by auto
qed

lemma apps_filter_step_eq:
  "apps_filter_step activity s (pre, oth) =
     (if apps_day_rejected (a_days_preference activity) s then (pre, oth)
      else if apps_in_preferred_band activity s then (pre @ [s], oth)
      else (pre, oth @ [s]))"
  by (auto simp: apps_filter_step_def apps_in_preferred_band_def Let_def split: prod.splits)

lemma apps_filter_fold:
  "fold (apps_filter_step activity) slots (pre, oth) =
     (pre @ filter (\<lambda>s. \<not> apps_day_rejected (a_days_preference activity) s
                         \<and> apps_in_preferred_band activity s) slots,
      oth @ filter (\<lambda>s. \<not> apps_day_rejected (a_days_preference activity) s
                         \<and> \<not> apps_in_preferred_band activity s) slots)"
proof (induction slots arbitrary: pre oth)
  case Nil show ?case by simp
next
  case (Cons s slots)
  show ?case
    by (simp add: apps_filter_step_eq Cons.IH)
qed

text \<open>
  Claim C6, as amended. The filter of the root variant keeps the order of the slots and
  retains a slot if and only if (the day preference is absent or empty, or the day of the
  slot's start is in it) and (the time preference is absent or empty, or contains
  \<^verbatim>\<open>"flexible"\<close> or \<^verbatim>\<open>"any"\<close>, or the hour of the slot's start lies in the band of one of
  the preferences: morning from 5 to 12, afternoon from 12 to 17, evening from 17 to 22).
  The filter of the apps variant drops a slot only for its day (a non-empty day preference
  that does not list the day of the slot); the time preference drops nothing, it puts the
  slots whose start time lies in the range of the preference, in their order, before the
  others.
\<close>

theorem C6_preference_filter:
  "filter_slots_by_preference slots tpref dpref = filter (amended_retains tpref dpref) slots
   \<and> apps_filter_slots_by_preference aslots activity =
       filter (\<lambda>s. \<not> apps_day_rejected (a_days_preference activity) s
                    \<and> apps_in_preferred_band activity s) aslots
       @ filter (\<lambda>s. \<not> apps_day_rejected (a_days_preference activity) s
                      \<and> \<not> apps_in_preferred_band activity s) aslots"
proof
  show "filter_slots_by_preference slots tpref dpref = filter (amended_retains tpref dpref) slots"
  proof (cases "tpref = None \<and> dpref = None")
    case True
    then have "amended_retains tpref dpref = (\<lambda>s. True)"
      by (auto simp: amended_retains_def no_days_def no_time_pref_def)
    with True show ?thesis by (simp add: filter_slots_by_preference_def)
  next
    case False
    have "slot_kept tpref dpref = amended_retains tpref dpref"
      by (rule ext) (rule slot_kept_amended)
    with False show ?thesis by (auto simp: filter_slots_by_preference_def)
  qed
next
  show "apps_filter_slots_by_preference aslots activity =
       filter (\<lambda>s. \<not> apps_day_rejected (a_days_preference activity) s
                    \<and> apps_in_preferred_band activity s) aslots
       @ filter (\<lambda>s. \<not> apps_day_rejected (a_days_preference activity) s
                      \<and> \<not> apps_in_preferred_band activity s) aslots"
    by (simp add: apps_filter_slots_by_preference_def apps_filter_fold)
qed

text \<open>
  The theorem on concrete slots: in the root variant a morning preference on Monday keeps
  the slot at 07:00 and drops the one at 14:00; in the apps variant the same preference
  puts the Monday slot at 07:00 first, keeps the Monday slot at 14:00 and drops Tuesday.
\<close>

theorem C6_preference_filter_witness:
  "filter_slots_by_preference
     [free_slot (time_of 7 0) (time_of 8 0), free_slot (time_of 14 0) (time_of 15 0)]
     (Some (PrefStr ''morning'')) (Some [''monday''])
   = [free_slot (time_of 7 0) (time_of 8 0)]
   \<and> apps_filter_slots_by_preference
       [\<lparr>a_start = time_of 14 0, a_end = time_of 15 0, a_day = Some MONDAY\<rparr>,
        \<lparr>a_start = time_of 7 0, a_end = time_of 8 0, a_day = Some MONDAY\<rparr>,
        \<lparr>a_start = days 1 + time_of 7 0, a_end = days 1 + time_of 8 0, a_day = Some TUESDAY\<rparr>]
       \<lparr>a_id = ''run'', a_name = ''Run'', a_frequency = SInt 3, a_duration = SInt 45,
        a_time_preference = MORNING, a_days_preference = Some [MONDAY]\<rparr>
     = [\<lparr>a_start = time_of 7 0, a_end = time_of 8 0, a_day = Some MONDAY\<rparr>,
        \<lparr>a_start = time_of 14 0, a_end = time_of 15 0, a_day = Some MONDAY\<rparr>]"
  using C6_preference_filter[of
     "[free_slot (time_of 7 0) (time_of 8 0), free_slot (time_of 14 0) (time_of 15 0)]"
     "Some (PrefStr ''morning'')" "Some [''monday'']"
     "[\<lparr>a_start = time_of 14 0, a_end = time_of 15 0, a_day = Some MONDAY\<rparr>,
        \<lparr>a_start = time_of 7 0, a_end = time_of 8 0, a_day = Some MONDAY\<rparr>,
        \<lparr>a_start = days 1 + time_of 7 0, a_end = days 1 + time_of 8 0, a_day = Some TUESDAY\<rparr>]"
     "\<lparr>a_id = ''run'', a_name = ''Run'', a_frequency = SInt 3, a_duration = SInt 45,
        a_time_preference = MORNING, a_days_preference = Some [MONDAY]\<rparr>"]
  by (simp add: amended_retains_def no_days_def no_time_pref_def prefs_of_def pref_list_def
      in_band_def day_name_def weekday_def date_of_def hour_def free_slot_def time_of_def
      us_per_day_def us_per_hour_def us_per_minute_def apps_day_rejected_def
      apps_in_preferred_band_def TIME_RANGES_def time_part_def days_def)

text \<open>
  Claim C6 as stated fails: the root variant retains a slot at 03:00 under the preference
  \<^verbatim>\<open>"any"\<close>, and under an empty time and day preference, where the rule of the
  specification retains nothing; in the apps variant the morning range starts at 06:00 and
  a slot at 14:00 is retained under a morning preference.
\<close>

theorem C6_counterexample:
  "filter_slots_by_preference [free_slot (time_of 3 0) (time_of 4 0)]
     (Some (PrefStr ''any'')) None
   = [free_slot (time_of 3 0) (time_of 4 0)]
   \<and> \<not> spec_retains (Some (PrefStr ''any'')) None (free_slot (time_of 3 0) (time_of 4 0))
   \<and> filter_slots_by_preference [free_slot (time_of 3 0) (time_of 4 0)]
     (Some (PrefList [])) (Some [])
   = [free_slot (time_of 3 0) (time_of 4 0)]
   \<and> \<not> spec_retains (Some (PrefList [])) (Some []) (free_slot (time_of 3 0) (time_of 4 0))
   \<and> TIME_RANGES MORNING = (time_of 6 0, time_of 12 0)
   \<and> apps_filter_slots_by_preference
       [\<lparr>a_start = time_of 14 0, a_end = time_of 15 0, a_day = Some MONDAY\<rparr>]
       \<lparr>a_id = ''run'', a_name = ''Run'', a_frequency = SInt 3, a_duration = SInt 45,
        a_time_preference = MORNING, a_days_preference = None\<rparr>
     = [\<lparr>a_start = time_of 14 0, a_end = time_of 15 0, a_day = Some MONDAY\<rparr>]"
  by (simp add: filter_slots_by_preference_def slot_kept_def day_rejected_def
      time_rejected_def pref_truthy_def pref_list_def pref_step_def spec_retains_def
      prefs_of_def in_band_def hour_def free_slot_def time_of_def
      us_per_day_def us_per_hour_def us_per_minute_def TIME_RANGES_def
      apps_filter_slots_by_preference_def apps_filter_step_def apps_day_rejected_def
      time_part_def Let_def)

subsection \<open>The availability calculator of the apps variant\<close>

lemmas apps_slots_eval =
  apps_get_available_slots_def apps_day_step_def work_block_def commitment_blocks_def
  apps_add_gap_def apps_duration_minutes_def whole_minutes_small combine_def time_of_def
  date_of_def day_of_week_def us_per_day_def us_per_hour_def us_per_minute_def Let_def
  date_add_def date_max_def

lemma week_offsets: "[0..<7] = [0, 1, 2, 3, 4, 5, 6]"
  by (simp add: upt_rec)

text \<open>
  Claim C10 says that every slot of the apps variant ends at or before 22:00 of its day.
  The code bounds only the trailing gap by \<^verbatim>\<open>day_end\<close>; a gap in front of an event ends
  where the event starts. With \<open>late_call\<close> on the calendar, the Monday slot runs from
  06:00 to 23:00.
\<close>

theorem C10_slot_ends_after_window:
  "apps_get_available_slots quiet_config 739634 [late_call] 30
     = Inr ([\<lparr>a_start = combine 739634 (time_of 6 0), a_end = combine 739634 (time_of 23 0),
               a_day = Some MONDAY\<rparr>,
             \<lparr>a_start = combine 739635 (time_of 6 0), a_end = combine 739635 (time_of 22 0),
               a_day = Some TUESDAY\<rparr>,
             \<lparr>a_start = combine 739636 (time_of 6 0), a_end = combine 739636 (time_of 22 0),
               a_day = Some WEDNESDAY\<rparr>,
             \<lparr>a_start = combine 739637 (time_of 6 0), a_end = combine 739637 (time_of 22 0),
               a_day = Some THURSDAY\<rparr>,
             \<lparr>a_start = combine 739638 (time_of 6 0), a_end = combine 739638 (time_of 22 0),
               a_day = Some FRIDAY\<rparr>,
             \<lparr>a_start = combine 739639 (time_of 6 0), a_end = combine 739639 (time_of 22 0),
               a_day = Some SATURDAY\<rparr>,
             \<lparr>a_start = combine 739640 (time_of 6 0), a_end = combine 739640 (time_of 22 0),
               a_day = Some SUNDAY\<rparr>],
            [late_call])
   \<and> combine 739634 (time_of 22 0) < combine 739634 (time_of 23 0)"
  by (simp add: apps_slots_eval quiet_config_def late_call_def week_offsets)

text \<open>
  Claim C8 says that the scheduler leaves the caller's event list as it was. The
  \<^verbatim>\<open>get_available_slots\<close> of the apps variant appends the work and commitment blocks to
  the list it is given: called on an empty list under \<open>office_config\<close>, it leaves the
  Monday work block in the caller's list.
\<close>

theorem C8_caller_list_grows:
  "map_sum id snd (apps_get_available_slots office_config 739634 [] 30)
     = Inr [\<lparr>se_id = WorkId 739634, se_title = ''Work'',
             se_start = combine 739634 (time_of 9 0), se_end = combine 739634 (time_of 17 0),
             se_activity_id = None, se_location = None, se_description = None\<rparr>]"
  by (simp add: apps_slots_eval office_config_def week_offsets)

text \<open>
  Claim C7 says that a second run right after a first, on the same inputs, returns the
  same slots. In the apps variant the first run has appended the work block to the
  caller's list, and the second run, on that list, appends it again. Under
  \<open>night_shift_config\<close> the block starts at 22:00 and ends at 06:00: it moves no cursor, and
  each copy of it emits the gap from 06:00 to 22:00 once more. The first run on the empty
  list returns 8 slots, the second run on the same list returns 9.
\<close>

theorem C7_second_run_differs:
  "map_sum id (\<lambda>r. (length (fst r), snd r))
     (apps_get_available_slots night_shift_config 739634 [] 30)
     = Inr (8, [night_shift])
   \<and> map_sum id (\<lambda>r. length (fst r))
       (apps_get_available_slots night_shift_config 739634 [night_shift] 30)
     = Inr 9
   \<and> map_sum id fst (apps_get_available_slots night_shift_config 739634 [night_shift] 30)
     \<noteq> map_sum id fst (apps_get_available_slots night_shift_config 739634 [] 30)"
proof -
  have first: "map_sum id (\<lambda>r. (length (fst r), snd r))
     (apps_get_available_slots night_shift_config 739634 [] 30)
     = Inr (8, [night_shift])"
    by (simp add: apps_slots_eval night_shift_config_def night_shift_def week_offsets)
  have second: "map_sum id (\<lambda>r. length (fst r))
       (apps_get_available_slots night_shift_config 739634 [night_shift] 30)
     = Inr 9"
    by (simp add: apps_slots_eval night_shift_config_def night_shift_def week_offsets)
  have "map_sum id (\<lambda>r. length (fst r))
       (apps_get_available_slots night_shift_config 739634 [night_shift] 30)
     \<noteq> map_sum id (\<lambda>r. length (fst r))
       (apps_get_available_slots night_shift_config 739634 [] 30)"
  proof -
    have "map_sum id (\<lambda>r. length (fst r))
       (apps_get_available_slots night_shift_config 739634 [] 30) = Inr 8"
      using first by (cases "apps_get_available_slots night_shift_config 739634 [] 30") auto
    with second show ?thesis by simp
  qed
  then have "map_sum id fst (apps_get_available_slots night_shift_config 739634 [night_shift] 30)
     \<noteq> map_sum id fst (apps_get_available_slots night_shift_config 739634 [] 30)"
    by (cases "apps_get_available_slots night_shift_config 739634 [night_shift] 30";
        cases "apps_get_available_slots night_shift_config 739634 [] 30") auto
  with first second show ?thesis by blast
qed

subsection \<open>Coverage after the proposals are booked\<close>

lemma tally_acc:
  "tally aid evs (n, m) =
     (case tally aid evs (0, 0) of Inl err \<Rightarrow> Inl err | Inr c \<Rightarrow> Inr (n + fst c, m + snd c))"
proof (induction evs arbitrary: n m)
  case Nil show ?case by simp
next
  case (Cons e evs)
  show ?case
  proof (cases "lifeos_activity_id e = Some aid")
    case False
    then show ?thesis using Cons.IH[of n m] by simp
  next
    case True
    show ?thesis
    proof (cases "ev_start e")
      case None then show ?thesis using True by simp
    next
      case (Some s)
      show ?thesis
      proof (cases "ev_end e")
        case None then show ?thesis using True Some by simp
      next
        case (Some t)
        show ?thesis
          using True \<open>ev_start e = Some s\<close> Some
            Cons.IH[of "n + 1" "m + whole_minutes (t - s)"]
            Cons.IH[of "1" "whole_minutes (t - s)"]
          by (simp split: sum.splits)
      qed
    qed
  qed
qed

lemma tally_append:
  "tally aid (xs @ ys) c =
     (case tally aid xs c of Inl err \<Rightarrow> Inl err | Inr c' \<Rightarrow> tally aid ys c')"
proof (induction xs arbitrary: c)
  case Nil show ?case by simp
next
  case (Cons e xs)
  show ?case by (simp add: Cons.IH split: option.splits)
qed

lemma tally_booked:
  "tally aid (map (\<lambda>p. booked_event (ident p) (title p) p) ps) (n, m) =
     Inr (n + int (length (proposals_for aid ps)), m + proposed_minutes aid ps)"
proof (induction ps arbitrary: n m)
  case Nil show ?case by (simp add: proposals_for_def proposed_minutes_def)
next
  case (Cons p ps)
  show ?case
    using Cons.IH
    by (simp add: booked_event_def proposals_for_def proposed_minutes_def)
qed

lemma dict_set_map:
  assumes "\<And>x. fst (f x) = fst x"
  shows "dict_set k (snd (f (k, v))) (map f d) = map f (dict_set k v d)"
proof (induction d)
  case Nil
  show ?case using assms[of "(k, v)"] by (simp add: prod_eq_iff)
next
  case (Cons kv d)
  show ?case using assms[of "(k, v)"] assms[of kv] Cons.IH by (simp add: prod_eq_iff)
qed

lemma fst_with_proposals: "fst (with_proposals ps x) = fst x"
  by (simp add: with_proposals_def Let_def)

lemma with_proposals_analysis_of:
  "snd (with_proposals ps (k, analysis_of req c)) =
     analysis_of req (fst c + int (length (proposals_for k ps)), snd c + proposed_minutes k ps)"
  by (simp add: with_proposals_def analysis_of_def Let_def)

lemma analysis_loop_booked:
  assumes "analysis_loop evs reqs acc = Inr an"
  shows "analysis_loop (evs @ map (\<lambda>p. booked_event (ident p) (title p) p) ps) reqs
           (map (with_proposals ps) acc) = Inr (map (with_proposals ps) an)"
  using assms
proof (induction reqs arbitrary: acc)
  case Nil then show ?case by simp
next
  case (Cons kv reqs)
  from Cons.prems obtain c where c: "tally (fst kv) evs (0, 0) = Inr c"
    and rest: "analysis_loop evs reqs (dict_set (fst kv) (analysis_of (snd kv) c) acc) = Inr an"
    by (auto split: sum.splits)
  have t: "tally (fst kv) (evs @ map (\<lambda>p. booked_event (ident p) (title p) p) ps) (0, 0)
      = Inr (fst c + int (length (proposals_for (fst kv) ps)),
             snd c + proposed_minutes (fst kv) ps)"
    using tally_booked[of "fst kv" ident title ps "fst c" "snd c"]
    by (simp add: tally_append c)
  have d: "dict_set (fst kv)
             (analysis_of (snd kv) (fst c + int (length (proposals_for (fst kv) ps)),
                snd c + proposed_minutes (fst kv) ps))
             (map (with_proposals ps) acc)
         = map (with_proposals ps) (dict_set (fst kv) (analysis_of (snd kv) c) acc)"
    using dict_set_map[of "with_proposals ps" "fst kv" "analysis_of (snd kv) c" acc]
    by (simp add: fst_with_proposals with_proposals_analysis_of)
  show ?case
    using Cons.IH[OF rest] by (simp add: t d)
qed

lemma analyze_booked:
  assumes "analyze_scheduled_vs_required config evs ws we = Inr an"
  shows "analyze_scheduled_vs_required config
           (evs @ map (\<lambda>p. booked_event (ident p) (title p) p) ps) ws we
         = Inr (map (with_proposals ps) an)"
proof -
  from assms obtain reqs where r: "calculate_weekly_requirements config = Inr reqs"
    and a: "analysis_loop evs reqs [] = Inr an"
    by (auto simp: analyze_scheduled_vs_required_def split: sum.splits)
  from analysis_loop_booked[OF a, of ident title ps] r show ?thesis
    by (simp add: analyze_scheduled_vs_required_def)
qed

lemma analysis_loop_shape:
  assumes "analysis_loop evs reqs acc = Inr an"
    and "\<forall>x\<in>set acc. fst (required_sessions (snd x)) - scheduled_sessions (snd x)
           \<le> sessions_deficit (snd x)"
  shows "\<forall>x\<in>set an. fst (required_sessions (snd x)) - scheduled_sessions (snd x)
           \<le> sessions_deficit (snd x)"
  using assms
proof (induction reqs arbitrary: acc)
  case Nil then show ?case by simp
next
  case (Cons kv reqs)
  from Cons.prems(1) obtain c where c: "tally (fst kv) evs (0, 0) = Inr c"
    and rest: "analysis_loop evs reqs (dict_set (fst kv) (analysis_of (snd kv) c) acc) = Inr an"
    by (auto split: sum.splits)
  have set_sub: "set (dict_set k v d) \<subseteq> insert (k, v) (set d)" for k :: string and v :: analysis_entry and d
    by (induction d) auto
  have "\<forall>x\<in>set (dict_set (fst kv) (analysis_of (snd kv) c) acc).
          fst (required_sessions (snd x)) - scheduled_sessions (snd x) \<le> sessions_deficit (snd x)"
  proof
    fix x assume "x \<in> set (dict_set (fst kv) (analysis_of (snd kv) c) acc)"
    with set_sub have "x = (fst kv, analysis_of (snd kv) c) \<or> x \<in> set acc" by blast
    then show "fst (required_sessions (snd x)) - scheduled_sessions (snd x) \<le> sessions_deficit (snd x)"
      using Cons.prems(2) by (auto simp: analysis_of_def)
  qed
  from Cons.IH[OF rest this] show ?case .
qed

text \<open>
  Claim C4. Let \<open>propose_schedule\<close> of the root variant return the proposals \<open>ps\<close> for a
  week. Book each proposal as a calendar event tagged with the id of its activity
  (whatever id and title the calendar gives it) and add these events to the original
  list. Then the coverage analysis of the new list, for the same week, returns, with the
  same activities in the same order; for each activity the scheduled count is the old
  count plus the number of proposals of that activity, each proposal counted once; and
  where the proposals of an activity number at least its old deficit, its new deficit
  is 0.
\<close>

theorem C4_round_trip:
  assumes "propose_schedule now config evs (Some week_start) = Inr ps"
  shows "\<exists>before after.
           analyze_scheduled_vs_required config evs week_start (week_start + days 7)
             = Inr before
         \<and> analyze_scheduled_vs_required config
             (evs @ map (\<lambda>p. booked_event (ident p) (title p) p) ps)
             week_start (week_start + days 7) = Inr after
         \<and> map fst after = map fst before
         \<and> (\<forall>i < length before.
               scheduled_sessions (snd (after ! i))
                 = scheduled_sessions (snd (before ! i))
                   + int (length (filter (\<lambda>p. act_id (p_activity p) = fst (before ! i)) ps))
             \<and> (sessions_deficit (snd (before ! i))
                   \<le> int (length (filter (\<lambda>p. act_id (p_activity p) = fst (before ! i)) ps))
                 \<longrightarrow> sessions_deficit (snd (after ! i)) = 0))"
proof -
  from assms obtain an where
    an: "analyze_scheduled_vs_required config evs week_start (week_start + days 7) = Inr an"
    by (auto simp: propose_schedule_def datetime_add_def split: sum.splits if_splits)
  let ?after = "map (with_proposals ps) an"
  have after: "analyze_scheduled_vs_required config
             (evs @ map (\<lambda>p. booked_event (ident p) (title p) p) ps)
             week_start (week_start + days 7) = Inr ?after"
    by (rule analyze_booked[OF an])
  have keys: "map fst ?after = map fst an"
    by (simp add: fst_with_proposals comp_def)
  have shape: "\<forall>x\<in>set an. fst (required_sessions (snd x)) - scheduled_sessions (snd x)
           \<le> sessions_deficit (snd x)"
  proof -
    from an obtain reqs where "analysis_loop evs reqs [] = Inr an"
      by (auto simp: analyze_scheduled_vs_required_def split: sum.splits)
    from analysis_loop_shape[OF this] show ?thesis by simp
  qed
  have each: "scheduled_sessions (snd (?after ! i))
                 = scheduled_sessions (snd (an ! i))
                   + int (length (filter (\<lambda>p. act_id (p_activity p) = fst (an ! i)) ps))
             \<and> (sessions_deficit (snd (an ! i))
                   \<le> int (length (filter (\<lambda>p. act_id (p_activity p) = fst (an ! i)) ps))
                 \<longrightarrow> sessions_deficit (snd (?after ! i)) = 0)"
    if "i < length an" for i
  proof -
    from that have "an ! i \<in> set an" by simp
    with shape have "fst (required_sessions (snd (an ! i))) - scheduled_sessions (snd (an ! i))
           \<le> sessions_deficit (snd (an ! i))" by blast
    then show ?thesis using that
      by (simp add: with_proposals_def Let_def proposals_for_def)
  qed
  show ?thesis using an after keys each by blast
qed

text \<open>
  The theorem on \<open>reader_config\<close> and an empty calendar: one session is proposed, and
  with it booked the deficit goes from 1 to 0 and the scheduled count from 0 to 1.
\<close>

lemmas root_eval =
  propose_schedule_def analyze_scheduled_vs_required_def calculate_weekly_requirements_def
  requirement_of_def get_activity_priority_def analysis_of_def activities_to_schedule_def
  schedule_key_def priority_order_def schedule_activity_def preferred_slots_def
  preferred_indices_def
  get_available_slots_def add_gap_def free_slot_def duration_minutes_def whole_minutes_small
  minutes_def days_def us_per_minute_def us_per_day_def booked_event_def Let_def
  datetime_add_def datetime_max_def timedelta_minutes_def

theorem C4_round_trip_witness:
  "propose_schedule 0 reader_config [] (Some (days 739634))
     = Inr [\<lparr>p_activity = reading, p_start = days 739634,
              p_end = days 739634 + minutes 30, p_priority = ''medium''\<rparr>]
   \<and> analyze_scheduled_vs_required reader_config [] (days 739634) (days 739634 + days 7)
     = Inr [(''reading'',
             \<lparr>an_activity = reading, required_sessions = (1, 1), required_minutes = (30, 30),
              scheduled_sessions = 0, scheduled_minutes = 0, sessions_deficit = 1,
              sessions_surplus = 0, minutes_deficit = 30, an_priority = ''medium''\<rparr>)]
   \<and> analyze_scheduled_vs_required reader_config
       [booked_event None None \<lparr>p_activity = reading, p_start = days 739634,
          p_end = days 739634 + minutes 30, p_priority = ''medium''\<rparr>]
       (days 739634) (days 739634 + days 7)
     = Inr [(''reading'',
             \<lparr>an_activity = reading, required_sessions = (1, 1), required_minutes = (30, 30),
              scheduled_sessions = 1, scheduled_minutes = 30, sessions_deficit = 0,
              sessions_surplus = 0, minutes_deficit = 0, an_priority = ''medium''\<rparr>)]"
proof -
  have h: "propose_schedule 0 reader_config [] (Some (days 739634))
     = Inr [\<lparr>p_activity = reading, p_start = days 739634,
              p_end = days 739634 + minutes 30, p_priority = ''medium''\<rparr>]"
    by (simp add: root_eval reader_config_def reading_def)
  from C4_round_trip[OF h, of "\<lambda>p. None" "\<lambda>p. None"] h show ?thesis
    by (simp add: root_eval reader_config_def reading_def)
qed


end
